theory Spec2Isabelle
  imports Main "HOL-Library.Word"
begin

unbundle bit_operations_syntax

section \<open>Register access\<close>

text \<open>
  The driver core touches the hardware only through memory-mapped register reads and
  writes, a delay callback, a lock and an error log. An execution is recorded as the list
  of these events, newest first. The hardware is a parameter: a \<open>device\<close> answers a read
  of a register from the whole history of events so far, so it may change its registers
  on its own, between any two accesses, or in reaction to writes.

  Registers are addressed by their 32-bit offset from the base address of the block they
  belong to (MAC, XPCS or DMA); register values are 32 bits wide.
\<close>

type_synonym u32 = "32 word"

datatype log_msg =
    MMC_VALUE_OVERFLOW u32
  | XPCS_AN_TIMED_OUT
  | XPCS_AN_ZERO_SPEED

datatype event =
    Read u32 u32
  | Write u32 u32
  | Udelay nat
  | Lock
  | Unlock
  | Lock_init
  | Log log_msg

type_synonym device = "event list \<Rightarrow> u32 \<Rightarrow> u32"

text \<open>
  Modelled from the spec: \<open>osi_readl\<close>, \<open>osi_writel\<close>, \<open>xpcs_read\<close> and \<open>xpcs_write\<close> are
  declared in headers (osi_common.h, xpcs.h) that are not among the sources. They are
  the facade's \<open>read32(address)\<close> and \<open>write32(address, value)\<close>: raw register accesses,
  assumed infallible.
\<close>

definition osi_readl :: "device \<Rightarrow> u32 \<Rightarrow> event list \<Rightarrow> u32 \<times> event list" where
  "osi_readl dev addr h = (dev h addr, Read addr (dev h addr) # h)"

definition osi_writel :: "u32 \<Rightarrow> u32 \<Rightarrow> event list \<Rightarrow> event list" where
  "osi_writel val addr h = Write addr val # h"

definition xpcs_read :: "device \<Rightarrow> u32 \<Rightarrow> event list \<Rightarrow> u32 \<times> event list" where
  "xpcs_read dev reg_addr h = (dev h reg_addr, Read reg_addr (dev h reg_addr) # h)"

definition xpcs_write :: "u32 \<Rightarrow> u32 \<Rightarrow> event list \<Rightarrow> event list" where
  "xpcs_write reg_addr val h = Write reg_addr val # h"

text \<open>
  A register file is the device without a life of its own: a read returns the value
  written last to that register, or the initial content when there was no write.
\<close>

fun regfile :: "(u32 \<Rightarrow> u32) \<Rightarrow> device" where
  "regfile init [] a = init a"
| "regfile init (Write a' v # h) a = (if a' = a then v else regfile init h a)"
| "regfile init (e # h) a = regfile init h a"

text \<open>Observations of a history: how often a register was read or written, how often
  the delay callback ran, and the value written last to a register.\<close>

fun n_reads :: "u32 \<Rightarrow> event list \<Rightarrow> nat" where
  "n_reads a [] = 0"
| "n_reads a (Read a' v # h) = (if a' = a then Suc (n_reads a h) else n_reads a h)"
| "n_reads a (e # h) = n_reads a h"

fun n_writes :: "u32 \<Rightarrow> event list \<Rightarrow> nat" where
  "n_writes a [] = 0"
| "n_writes a (Write a' v # h) = (if a' = a then Suc (n_writes a h) else n_writes a h)"
| "n_writes a (e # h) = n_writes a h"

fun n_delays :: "event list \<Rightarrow> nat" where
  "n_delays [] = 0"
| "n_delays (Udelay us # h) = Suc (n_delays h)"
| "n_delays (e # h) = n_delays h"

fun delayed_usec :: "event list \<Rightarrow> nat" where
  "delayed_usec [] = 0"
| "delayed_usec (Udelay us # h) = us + delayed_usec h"
| "delayed_usec (e # h) = delayed_usec h"

fun last_written :: "u32 \<Rightarrow> event list \<Rightarrow> u32 option" where
  "last_written a [] = None"
| "last_written a (Write a' v # h) = (if a' = a then Some v else last_written a h)"
| "last_written a (e # h) = last_written a h"

section \<open>XPCS: autonegotiation and speed programming (osi/core/xpcs.c)\<close>

text \<open>
  The register offsets and bit masks of xpcs.h, which is not among the sources, are a
  parameter of the model. Each field carries the name of its macro.
\<close>

record xpcs_h =
  XPCS_SR_MII_CTRL :: u32
  XPCS_SR_MII_CTRL_AN_ENABLE :: u32
  XPCS_SR_MII_CTRL_SS5 :: u32
  XPCS_SR_MII_CTRL_SS6 :: u32
  XPCS_SR_MII_CTRL_SS13 :: u32
  XPCS_VR_MII_AN_INTR_STS :: u32
  XPCS_VR_MII_AN_INTR_STS_CL37_ANCMPLT_INTR :: u32
  XPCS_USXG_AN_STS_SPEED_MASK :: u32
  XPCS_USXG_AN_STS_SPEED_2500 :: u32
  XPCS_USXG_AN_STS_SPEED_5000 :: u32
  XPCS_USXG_AN_STS_SPEED_10000 :: u32
  XPCS_VR_XS_PCS_DIG_CTRL1 :: u32
  XPCS_VR_XS_PCS_DIG_CTRL1_USRA_RST :: u32
  XPCS_SR_XS_PCS_STS1 :: u32
  XPCS_SR_XS_PCS_STS1_RLU :: u32

text \<open>The local \<open>unsigned int retry = 1000\<close> of every polling function. The loop counter
  \<open>count\<close> never exceeds \<open>retry + 1\<close>, so it is a natural number here.\<close>

definition retry :: nat where
  "retry = 1000"

text \<open>
  The \<open>while (cond == 1)\<close> loop of \<open>xpcs_poll_for_an_complete\<close>. The result is \<open>None\<close> when
  the loop returns -1 from inside (after logging the timeout), and the value of \<open>status\<close>
  when it ends with \<open>cond = 0\<close>.
\<close>

function an_complete_loop :: "xpcs_h \<Rightarrow> device \<Rightarrow> nat \<Rightarrow> event list \<Rightarrow> u32 option \<times> event list" where
  "an_complete_loop k dev count h =
     (if count > retry then (None, Log XPCS_AN_TIMED_OUT # h)
      else
        (case xpcs_read dev (XPCS_VR_MII_AN_INTR_STS k) h of (status, h1) \<Rightarrow>
           if status AND XPCS_VR_MII_AN_INTR_STS_CL37_ANCMPLT_INTR k = 0
           then an_complete_loop k dev (count + 1) (Udelay 1000 # h1)
           else
             (let status' = status AND NOT (XPCS_VR_MII_AN_INTR_STS_CL37_ANCMPLT_INTR k)
              in (Some status', xpcs_write (XPCS_VR_MII_AN_INTR_STS k) status' h1))))"
  by pat_completeness auto
termination
  by (relation "measure (\<lambda>(k, dev, count, h). Suc retry - count)") auto

declare an_complete_loop.simps [simp del]

text \<open>\<open>xpcs_poll_for_an_complete\<close>: the return value, the out-parameter \<open>*an_status\<close> (left as
  it was on failure) and the history.\<close>

definition xpcs_poll_for_an_complete ::
    "xpcs_h \<Rightarrow> device \<Rightarrow> u32 \<Rightarrow> event list \<Rightarrow> int \<times> u32 \<times> event list" where
  "xpcs_poll_for_an_complete k dev an_status h =
     (case an_complete_loop k dev 0 h of
        (None, h1) \<Rightarrow> (- 1, an_status, h1)
      | (Some status, h1) \<Rightarrow>
          if status AND XPCS_USXG_AN_STS_SPEED_MASK k = 0
          then (- 1, an_status, Log XPCS_AN_ZERO_SPEED # h1)
          else (0, status, h1))"

text \<open>\<open>xpcs_set_speed\<close>. The labels of a C \<open>switch\<close> are pairwise different constants, so
  the cases are tried in the order of the source.\<close>

definition xpcs_set_speed :: "xpcs_h \<Rightarrow> device \<Rightarrow> u32 \<Rightarrow> event list \<Rightarrow> event list" where
  "xpcs_set_speed k dev status h =
     (let speed = status AND XPCS_USXG_AN_STS_SPEED_MASK k in
      case xpcs_read dev (XPCS_SR_MII_CTRL k) h of (ctrl, h1) \<Rightarrow>
        (let ctrl' =
           (if speed = XPCS_USXG_AN_STS_SPEED_2500 k then
              (ctrl OR XPCS_SR_MII_CTRL_SS5 k)
                AND NOT (XPCS_SR_MII_CTRL_SS6 k OR XPCS_SR_MII_CTRL_SS13 k)
            else if speed = XPCS_USXG_AN_STS_SPEED_5000 k then
              (ctrl OR (XPCS_SR_MII_CTRL_SS5 k OR XPCS_SR_MII_CTRL_SS13 k))
                AND NOT (XPCS_SR_MII_CTRL_SS6 k)
            else
              (ctrl OR (XPCS_SR_MII_CTRL_SS6 k OR XPCS_SR_MII_CTRL_SS13 k))
                AND NOT (XPCS_SR_MII_CTRL_SS5 k))
         in xpcs_write (XPCS_SR_MII_CTRL k) ctrl' h1))"

text \<open>The two polling loops of \<open>xpcs_start\<close>: for the self-clearing rate adaptor reset bit
  and for the receive link. \<open>False\<close> is the \<open>return -1\<close> from inside the loop.\<close>

function usra_rst_loop :: "xpcs_h \<Rightarrow> device \<Rightarrow> nat \<Rightarrow> event list \<Rightarrow> bool \<times> event list" where
  "usra_rst_loop k dev count h =
     (if count > retry then (False, h)
      else
        (case xpcs_read dev (XPCS_VR_XS_PCS_DIG_CTRL1 k) h of (ctrl, h1) \<Rightarrow>
           if ctrl AND XPCS_VR_XS_PCS_DIG_CTRL1_USRA_RST k = 0 then (True, h1)
           else usra_rst_loop k dev (count + 1) (Udelay 1000 # h1)))"
  by pat_completeness auto
termination
  by (relation "measure (\<lambda>(k, dev, count, h). Suc retry - count)") auto

declare usra_rst_loop.simps [simp del]

function rx_link_up_loop :: "xpcs_h \<Rightarrow> device \<Rightarrow> nat \<Rightarrow> event list \<Rightarrow> bool \<times> event list" where
  "rx_link_up_loop k dev count h =
     (if count > retry then (False, h)
      else
        (case xpcs_read dev (XPCS_SR_XS_PCS_STS1 k) h of (ctrl, h1) \<Rightarrow>
           if ctrl AND XPCS_SR_XS_PCS_STS1_RLU k = XPCS_SR_XS_PCS_STS1_RLU k then (True, h1)
           else rx_link_up_loop k dev (count + 1) (Udelay 1000 # h1)))"
  by pat_completeness auto
termination
  by (relation "measure (\<lambda>(k, dev, count, h). Suc retry - count)") auto

declare rx_link_up_loop.simps [simp del]

definition xpcs_start :: "xpcs_h \<Rightarrow> device \<Rightarrow> event list \<Rightarrow> int \<times> event list" where
  "xpcs_start k dev h =
     (case xpcs_read dev (XPCS_SR_MII_CTRL k) h of (ctrl, h1) \<Rightarrow>
      let h2 = xpcs_write (XPCS_SR_MII_CTRL k) (ctrl OR XPCS_SR_MII_CTRL_AN_ENABLE k) h1 in
      case xpcs_poll_for_an_complete k dev 0 h2 of (ret, an_status, h3) \<Rightarrow>
      if ret < 0 then (ret, h3)
      else
        (let h4 = xpcs_set_speed k dev an_status h3 in
         case xpcs_read dev (XPCS_VR_XS_PCS_DIG_CTRL1 k) h4 of (ctrl, h5) \<Rightarrow>
         let h6 = xpcs_write (XPCS_VR_XS_PCS_DIG_CTRL1 k)
                    (ctrl OR XPCS_VR_XS_PCS_DIG_CTRL1_USRA_RST k) h5 in
         (case usra_rst_loop k dev 0 h6 of
            (False, h7) \<Rightarrow> (- 1, h7)
          | (True, h7) \<Rightarrow>
              (case rx_link_up_loop k dev 0 h7 of
                 (False, h8) \<Rightarrow> (- 1, h8)
               | (True, h8) \<Rightarrow> (0, h8)))))"

section \<open>MMC: the statistics counters (osi/core/eqos_mmc.c)\<close>

text \<open>
  \<open>struct osi_mmc_counters\<close> is declared in a header that is not among the sources. Its
  fields are \<open>unsigned long\<close>, as \<open>update_mmc_val\<close> takes and returns them; the struct is a
  function from fields to values here, and a field is known by its position among the
  fields that \<open>eqos_read_mmc\<close> assigns, in the order of their first assignment.

  The width of \<open>unsigned long\<close> depends on the platform and is the type parameter \<open>'l\<close>:
  64 bits on LP64 (the 64-bit running totals of the specification), 32 bits on ILP32.
  \<open>unsigned long long\<close> is 64 bits and \<open>unsigned int\<close> 32 bits on both.
\<close>

type_synonym 'l osi_mmc_counters = "nat \<Rightarrow> 'l word"

definition mmc_tx_octetcount_gb :: nat where "mmc_tx_octetcount_gb = 0"
definition mmc_tx_framecount_gb :: nat where "mmc_tx_framecount_gb = 1"
definition mmc_tx_broadcastframe_g :: nat where "mmc_tx_broadcastframe_g = 2"
definition mmc_tx_multicastframe_g :: nat where "mmc_tx_multicastframe_g = 3"
definition mmc_tx_64_octets_gb :: nat where "mmc_tx_64_octets_gb = 4"
definition mmc_tx_65_to_127_octets_gb :: nat where "mmc_tx_65_to_127_octets_gb = 5"
definition mmc_tx_128_to_255_octets_gb :: nat where "mmc_tx_128_to_255_octets_gb = 6"
definition mmc_tx_256_to_511_octets_gb :: nat where "mmc_tx_256_to_511_octets_gb = 7"
definition mmc_tx_512_to_1023_octets_gb :: nat where "mmc_tx_512_to_1023_octets_gb = 8"
definition mmc_tx_1024_to_max_octets_gb :: nat where "mmc_tx_1024_to_max_octets_gb = 9"
definition mmc_tx_unicast_gb :: nat where "mmc_tx_unicast_gb = 10"
definition mmc_tx_multicast_gb :: nat where "mmc_tx_multicast_gb = 11"
definition mmc_tx_broadcast_gb :: nat where "mmc_tx_broadcast_gb = 12"
definition mmc_tx_underflow_error :: nat where "mmc_tx_underflow_error = 13"
definition mmc_tx_singlecol_g :: nat where "mmc_tx_singlecol_g = 14"
definition mmc_tx_multicol_g :: nat where "mmc_tx_multicol_g = 15"
definition mmc_tx_deferred :: nat where "mmc_tx_deferred = 16"
definition mmc_tx_latecol :: nat where "mmc_tx_latecol = 17"
definition mmc_tx_exesscol :: nat where "mmc_tx_exesscol = 18"
definition mmc_tx_carrier_error :: nat where "mmc_tx_carrier_error = 19"
definition mmc_tx_octetcount_g :: nat where "mmc_tx_octetcount_g = 20"
definition mmc_tx_framecount_g :: nat where "mmc_tx_framecount_g = 21"
definition mmc_tx_excessdef :: nat where "mmc_tx_excessdef = 22"
definition mmc_tx_pause_frame :: nat where "mmc_tx_pause_frame = 23"
definition mmc_tx_vlan_frame_g :: nat where "mmc_tx_vlan_frame_g = 24"
definition mmc_tx_osize_frame_g :: nat where "mmc_tx_osize_frame_g = 25"
definition mmc_rx_framecount_gb :: nat where "mmc_rx_framecount_gb = 26"
definition mmc_rx_octetcount_gb :: nat where "mmc_rx_octetcount_gb = 27"
definition mmc_rx_octetcount_g :: nat where "mmc_rx_octetcount_g = 28"
definition mmc_rx_broadcastframe_g :: nat where "mmc_rx_broadcastframe_g = 29"
definition mmc_rx_multicastframe_g :: nat where "mmc_rx_multicastframe_g = 30"
definition mmc_rx_crc_error :: nat where "mmc_rx_crc_error = 31"
definition mmc_rx_align_error :: nat where "mmc_rx_align_error = 32"
definition mmc_rx_runt_error :: nat where "mmc_rx_runt_error = 33"
definition mmc_rx_jabber_error :: nat where "mmc_rx_jabber_error = 34"
definition mmc_rx_undersize_g :: nat where "mmc_rx_undersize_g = 35"
definition mmc_rx_oversize_g :: nat where "mmc_rx_oversize_g = 36"
definition mmc_rx_64_octets_gb :: nat where "mmc_rx_64_octets_gb = 37"
definition mmc_rx_65_to_127_octets_gb :: nat where "mmc_rx_65_to_127_octets_gb = 38"
definition mmc_rx_128_to_255_octets_gb :: nat where "mmc_rx_128_to_255_octets_gb = 39"
definition mmc_rx_256_to_511_octets_gb :: nat where "mmc_rx_256_to_511_octets_gb = 40"
definition mmc_rx_512_to_1023_octets_gb :: nat where "mmc_rx_512_to_1023_octets_gb = 41"
definition mmc_rx_1024_to_max_octets_gb :: nat where "mmc_rx_1024_to_max_octets_gb = 42"
definition mmc_rx_unicast_g :: nat where "mmc_rx_unicast_g = 43"
definition mmc_rx_length_error :: nat where "mmc_rx_length_error = 44"
definition mmc_rx_outofrangetype :: nat where "mmc_rx_outofrangetype = 45"
definition mmc_rx_pause_frames :: nat where "mmc_rx_pause_frames = 46"
definition mmc_rx_fifo_overflow :: nat where "mmc_rx_fifo_overflow = 47"
definition mmc_rx_vlan_frames_gb :: nat where "mmc_rx_vlan_frames_gb = 48"
definition mmc_rx_watchdog_error :: nat where "mmc_rx_watchdog_error = 49"
definition mmc_rx_receive_error :: nat where "mmc_rx_receive_error = 50"
definition mmc_rx_ctrl_frames_g :: nat where "mmc_rx_ctrl_frames_g = 51"
definition mmc_rx_ipv4_gd :: nat where "mmc_rx_ipv4_gd = 52"
definition mmc_rx_ipv4_hderr :: nat where "mmc_rx_ipv4_hderr = 53"
definition mmc_rx_ipv4_nopay :: nat where "mmc_rx_ipv4_nopay = 54"
definition mmc_rx_ipv4_frag :: nat where "mmc_rx_ipv4_frag = 55"
definition mmc_rx_ipv4_udsbl :: nat where "mmc_rx_ipv4_udsbl = 56"
definition mmc_rx_ipv6_gd_octets :: nat where "mmc_rx_ipv6_gd_octets = 57"
definition mmc_rx_ipv6_hderr_octets :: nat where "mmc_rx_ipv6_hderr_octets = 58"
definition mmc_rx_ipv6_nopay_octets :: nat where "mmc_rx_ipv6_nopay_octets = 59"
definition mmc_rx_udp_gd :: nat where "mmc_rx_udp_gd = 60"
definition mmc_rx_udp_err :: nat where "mmc_rx_udp_err = 61"
definition mmc_rx_tcp_gd :: nat where "mmc_rx_tcp_gd = 62"
definition mmc_rx_tcp_err :: nat where "mmc_rx_tcp_err = 63"
definition mmc_rx_icmp_gd :: nat where "mmc_rx_icmp_gd = 64"
definition mmc_rx_icmp_err :: nat where "mmc_rx_icmp_err = 65"
definition mmc_rx_ipv4_gd_octets :: nat where "mmc_rx_ipv4_gd_octets = 66"
definition mmc_rx_ipv4_hderr_octets :: nat where "mmc_rx_ipv4_hderr_octets = 67"
definition mmc_rx_ipv4_nopay_octets :: nat where "mmc_rx_ipv4_nopay_octets = 68"
definition mmc_rx_ipv4_frag_octets :: nat where "mmc_rx_ipv4_frag_octets = 69"
definition mmc_rx_ipv4_udsbl_octets :: nat where "mmc_rx_ipv4_udsbl_octets = 70"
definition mmc_rx_udp_gd_octets :: nat where "mmc_rx_udp_gd_octets = 71"
definition mmc_rx_ipv6_hderr :: nat where "mmc_rx_ipv6_hderr = 72"
definition mmc_rx_ipv6_nopay :: nat where "mmc_rx_ipv6_nopay = 73"
definition mmc_rx_udp_err_octets :: nat where "mmc_rx_udp_err_octets = 74"
definition mmc_rx_tcp_gd_octets :: nat where "mmc_rx_tcp_gd_octets = 75"
definition mmc_rx_tcp_err_octets :: nat where "mmc_rx_tcp_err_octets = 76"
definition mmc_rx_icmp_gd_octets :: nat where "mmc_rx_icmp_gd_octets = 77"
definition mmc_rx_icmp_err_octets :: nat where "mmc_rx_icmp_err_octets = 78"

text \<open>
  The register offsets of eqos_mmc.h and eqos_core.h, which are not among the sources,
  are a parameter: \<open>MMC_REG k r\<close> is the offset that the header gives to the counter
  register macro \<open>r\<close>; the macros are numbered in the order in which \<open>eqos_read_mmc\<close> reads
  them.
\<close>

record eqos_mmc_h =
  EQOS_MMC_CNTRL :: u32
  EQOS_MMC_CNTRL_CNTRST :: u32
  MMC_REG :: "nat \<Rightarrow> u32"

definition MMC_TXOCTETCOUNT_GB :: nat where "MMC_TXOCTETCOUNT_GB = 0"
definition MMC_TXPACKETCOUNT_GB :: nat where "MMC_TXPACKETCOUNT_GB = 1"
definition MMC_TXBROADCASTPACKETS_G :: nat where "MMC_TXBROADCASTPACKETS_G = 2"
definition MMC_TXMULTICASTPACKETS_G :: nat where "MMC_TXMULTICASTPACKETS_G = 3"
definition MMC_TX64OCTETS_GB :: nat where "MMC_TX64OCTETS_GB = 4"
definition MMC_TX65TO127OCTETS_GB :: nat where "MMC_TX65TO127OCTETS_GB = 5"
definition MMC_TX128TO255OCTETS_GB :: nat where "MMC_TX128TO255OCTETS_GB = 6"
definition MMC_TX256TO511OCTETS_GB :: nat where "MMC_TX256TO511OCTETS_GB = 7"
definition MMC_TX512TO1023OCTETS_GB :: nat where "MMC_TX512TO1023OCTETS_GB = 8"
definition MMC_TX1024TOMAXOCTETS_GB :: nat where "MMC_TX1024TOMAXOCTETS_GB = 9"
definition MMC_TXUNICASTPACKETS_GB :: nat where "MMC_TXUNICASTPACKETS_GB = 10"
definition MMC_TXMULTICASTPACKETS_GB :: nat where "MMC_TXMULTICASTPACKETS_GB = 11"
definition MMC_TXBROADCASTPACKETS_GB :: nat where "MMC_TXBROADCASTPACKETS_GB = 12"
definition MMC_TXUNDERFLOWERROR :: nat where "MMC_TXUNDERFLOWERROR = 13"
definition MMC_TXSINGLECOL_G :: nat where "MMC_TXSINGLECOL_G = 14"
definition MMC_TXMULTICOL_G :: nat where "MMC_TXMULTICOL_G = 15"
definition MMC_TXDEFERRED :: nat where "MMC_TXDEFERRED = 16"
definition MMC_TXLATECOL :: nat where "MMC_TXLATECOL = 17"
definition MMC_TXEXESSCOL :: nat where "MMC_TXEXESSCOL = 18"
definition MMC_TXCARRIERERROR :: nat where "MMC_TXCARRIERERROR = 19"
definition MMC_TXOCTETCOUNT_G :: nat where "MMC_TXOCTETCOUNT_G = 20"
definition MMC_TXPACKETSCOUNT_G :: nat where "MMC_TXPACKETSCOUNT_G = 21"
definition MMC_TXEXCESSDEF :: nat where "MMC_TXEXCESSDEF = 22"
definition MMC_TXPAUSEPACKETS :: nat where "MMC_TXPAUSEPACKETS = 23"
definition MMC_TXVLANPACKETS_G :: nat where "MMC_TXVLANPACKETS_G = 24"
definition MMC_TXOVERSIZE_G :: nat where "MMC_TXOVERSIZE_G = 25"
definition MMC_RXPACKETCOUNT_GB :: nat where "MMC_RXPACKETCOUNT_GB = 26"
definition MMC_RXOCTETCOUNT_GB :: nat where "MMC_RXOCTETCOUNT_GB = 27"
definition MMC_RXOCTETCOUNT_G :: nat where "MMC_RXOCTETCOUNT_G = 28"
definition MMC_RXBROADCASTPACKETS_G :: nat where "MMC_RXBROADCASTPACKETS_G = 29"
definition MMC_RXMULTICASTPACKETS_G :: nat where "MMC_RXMULTICASTPACKETS_G = 30"
definition MMC_RXCRCERROR :: nat where "MMC_RXCRCERROR = 31"
definition MMC_RXALIGNMENTERROR :: nat where "MMC_RXALIGNMENTERROR = 32"
definition MMC_RXRUNTERROR :: nat where "MMC_RXRUNTERROR = 33"
definition MMC_RXJABBERERROR :: nat where "MMC_RXJABBERERROR = 34"
definition MMC_RXUNDERSIZE_G :: nat where "MMC_RXUNDERSIZE_G = 35"
definition MMC_RXOVERSIZE_G :: nat where "MMC_RXOVERSIZE_G = 36"
definition MMC_RX64OCTETS_GB :: nat where "MMC_RX64OCTETS_GB = 37"
definition MMC_RX65TO127OCTETS_GB :: nat where "MMC_RX65TO127OCTETS_GB = 38"
definition MMC_RX128TO255OCTETS_GB :: nat where "MMC_RX128TO255OCTETS_GB = 39"
definition MMC_RX256TO511OCTETS_GB :: nat where "MMC_RX256TO511OCTETS_GB = 40"
definition MMC_RX512TO1023OCTETS_GB :: nat where "MMC_RX512TO1023OCTETS_GB = 41"
definition MMC_RX1024TOMAXOCTETS_GB :: nat where "MMC_RX1024TOMAXOCTETS_GB = 42"
definition MMC_RXUNICASTPACKETS_G :: nat where "MMC_RXUNICASTPACKETS_G = 43"
definition MMC_RXLENGTHERROR :: nat where "MMC_RXLENGTHERROR = 44"
definition MMC_RXOUTOFRANGETYPE :: nat where "MMC_RXOUTOFRANGETYPE = 45"
definition MMC_RXPAUSEPACKETS :: nat where "MMC_RXPAUSEPACKETS = 46"
definition MMC_RXFIFOOVERFLOW :: nat where "MMC_RXFIFOOVERFLOW = 47"
definition MMC_RXVLANPACKETS_GB :: nat where "MMC_RXVLANPACKETS_GB = 48"
definition MMC_RXWATCHDOGERROR :: nat where "MMC_RXWATCHDOGERROR = 49"
definition MMC_RXRCVERROR :: nat where "MMC_RXRCVERROR = 50"
definition MMC_RXCTRLPACKETS_G :: nat where "MMC_RXCTRLPACKETS_G = 51"
definition MMC_RXIPV4_GD_PKTS :: nat where "MMC_RXIPV4_GD_PKTS = 52"
definition MMC_RXIPV4_HDRERR_PKTS :: nat where "MMC_RXIPV4_HDRERR_PKTS = 53"
definition MMC_RXIPV4_NOPAY_PKTS :: nat where "MMC_RXIPV4_NOPAY_PKTS = 54"
definition MMC_RXIPV4_FRAG_PKTS :: nat where "MMC_RXIPV4_FRAG_PKTS = 55"
definition MMC_RXIPV4_UBSBL_PKTS :: nat where "MMC_RXIPV4_UBSBL_PKTS = 56"
definition MMC_RXIPV6_GD_PKTS :: nat where "MMC_RXIPV6_GD_PKTS = 57"
definition MMC_RXIPV6_HDRERR_PKTS :: nat where "MMC_RXIPV6_HDRERR_PKTS = 58"
definition MMC_RXIPV6_NOPAY_PKTS :: nat where "MMC_RXIPV6_NOPAY_PKTS = 59"
definition MMC_RXUDP_GD_PKTS :: nat where "MMC_RXUDP_GD_PKTS = 60"
definition MMC_RXUDP_ERR_PKTS :: nat where "MMC_RXUDP_ERR_PKTS = 61"
definition MMC_RXTCP_GD_PKTS :: nat where "MMC_RXTCP_GD_PKTS = 62"
definition MMC_RXTCP_ERR_PKTS :: nat where "MMC_RXTCP_ERR_PKTS = 63"
definition MMC_RXICMP_GD_PKTS :: nat where "MMC_RXICMP_GD_PKTS = 64"
definition MMC_RXICMP_ERR_PKTS :: nat where "MMC_RXICMP_ERR_PKTS = 65"
definition MMC_RXIPV4_GD_OCTETS :: nat where "MMC_RXIPV4_GD_OCTETS = 66"
definition MMC_RXIPV4_HDRERR_OCTETS :: nat where "MMC_RXIPV4_HDRERR_OCTETS = 67"
definition MMC_RXIPV4_NOPAY_OCTETS :: nat where "MMC_RXIPV4_NOPAY_OCTETS = 68"
definition MMC_RXIPV4_FRAG_OCTETS :: nat where "MMC_RXIPV4_FRAG_OCTETS = 69"
definition MMC_RXIPV4_UDSBL_OCTETS :: nat where "MMC_RXIPV4_UDSBL_OCTETS = 70"
definition MMC_RXIPV6_GD_OCTETS :: nat where "MMC_RXIPV6_GD_OCTETS = 71"
definition MMC_RXIPV6_HDRERR_OCTETS :: nat where "MMC_RXIPV6_HDRERR_OCTETS = 72"
definition MMC_RXIPV6_NOPAY_OCTETS :: nat where "MMC_RXIPV6_NOPAY_OCTETS = 73"
definition MMC_RXUDP_GD_OCTETS :: nat where "MMC_RXUDP_GD_OCTETS = 74"
definition MMC_RXUDP_ERR_OCTETS :: nat where "MMC_RXUDP_ERR_OCTETS = 75"
definition MMC_RXTCP_GD_OCTETS :: nat where "MMC_RXTCP_GD_OCTETS = 76"
definition MMC_RXTCP_ERR_OCTETS :: nat where "MMC_RXTCP_ERR_OCTETS = 77"
definition MMC_RXICMP_GD_OCTETS :: nat where "MMC_RXICMP_GD_OCTETS = 78"
definition MMC_RXICMP_ERR_OCTETS :: nat where "MMC_RXICMP_ERR_OCTETS = 79"

text \<open>The part of \<open>struct osi_core_priv_data\<close> that the counters code uses is the
  counter struct \<open>mmc\<close>; a state is this struct and the history of register accesses.\<close>

type_synonym 'l osi_core = "'l osi_mmc_counters \<times> event list"

text \<open>\<^verbatim>\<open>ULONG_MAX\<close>: the largest \<open>unsigned long\<close>.\<close>

definition ULONG_MAX :: "'l::len word" where
  "ULONG_MAX = - 1"

text \<open>\<open>eqos_reset_mmc\<close>: set the self-clearing counter reset bit, then \<open>osi_memset\<close> the
  counter struct to zero.\<close>

definition eqos_reset_mmc :: "eqos_mmc_h \<Rightarrow> device \<Rightarrow> 'l::len osi_core \<Rightarrow> 'l osi_core" where
  "eqos_reset_mmc k dev c =
     (case osi_readl dev (EQOS_MMC_CNTRL k) (snd c) of (value, h1) \<Rightarrow>
        (\<lambda>f. 0, osi_writel (value OR EQOS_MMC_CNTRL_CNTRST k) (EQOS_MMC_CNTRL k) h1))"

text \<open>\<open>update_mmc_val\<close>: \<open>temp\<close> is an \<open>unsigned long long\<close>, so the sum is taken modulo
  \<open>2 ^ 64\<close> and then compared with \<^verbatim>\<open>ULONG_MAX\<close>, converted to \<open>unsigned long long\<close>.\<close>

definition update_mmc_val ::
    "eqos_mmc_h \<Rightarrow> device \<Rightarrow> 'l::len osi_core \<Rightarrow> 'l word \<Rightarrow> u32 \<Rightarrow> 'l word \<times> 'l osi_core" where
  "update_mmc_val k dev c last_value offset =
     (case osi_readl dev offset (snd c) of (value, h1) \<Rightarrow>
        (let temp = (ucast last_value :: 64 word) + (ucast value :: 64 word) in
         if temp > ucast (ULONG_MAX :: 'l word)
         then (0, eqos_reset_mmc k dev (fst c, Log (MMC_VALUE_OVERFLOW offset) # h1))
         else (ucast temp, (fst c, h1))))"

text \<open>
  \<open>eqos_read_mmc\<close> is a sequence of eighty assignments
  \<^verbatim>\<open>mmc->dst = update_mmc_val(osi_core, mmc->src, REG);\<close>
  The table lists them in the order of the source as \<open>(dst, src, REG)\<close>. One assignment
  reads \<open>mmc->src\<close>, calls \<open>update_mmc_val\<close> (which may reset the whole struct) and then
  stores the result in \<open>mmc->dst\<close>.
\<close>

definition mmc_assignments :: "(nat \<times> nat \<times> nat) list" where
  "mmc_assignments = [
     (mmc_tx_octetcount_gb, mmc_tx_octetcount_gb, MMC_TXOCTETCOUNT_GB),
     (mmc_tx_framecount_gb, mmc_tx_framecount_gb, MMC_TXPACKETCOUNT_GB),
     (mmc_tx_broadcastframe_g, mmc_tx_broadcastframe_g, MMC_TXBROADCASTPACKETS_G),
     (mmc_tx_multicastframe_g, mmc_tx_multicastframe_g, MMC_TXMULTICASTPACKETS_G),
     (mmc_tx_64_octets_gb, mmc_tx_64_octets_gb, MMC_TX64OCTETS_GB),
     (mmc_tx_65_to_127_octets_gb, mmc_tx_65_to_127_octets_gb, MMC_TX65TO127OCTETS_GB),
     (mmc_tx_128_to_255_octets_gb, mmc_tx_128_to_255_octets_gb, MMC_TX128TO255OCTETS_GB),
     (mmc_tx_256_to_511_octets_gb, mmc_tx_256_to_511_octets_gb, MMC_TX256TO511OCTETS_GB),
     (mmc_tx_512_to_1023_octets_gb, mmc_tx_512_to_1023_octets_gb, MMC_TX512TO1023OCTETS_GB),
     (mmc_tx_1024_to_max_octets_gb, mmc_tx_1024_to_max_octets_gb, MMC_TX1024TOMAXOCTETS_GB),
     (mmc_tx_unicast_gb, mmc_tx_unicast_gb, MMC_TXUNICASTPACKETS_GB),
     (mmc_tx_multicast_gb, mmc_tx_multicast_gb, MMC_TXMULTICASTPACKETS_GB),
     (mmc_tx_broadcast_gb, mmc_tx_broadcast_gb, MMC_TXBROADCASTPACKETS_GB),
     (mmc_tx_underflow_error, mmc_tx_underflow_error, MMC_TXUNDERFLOWERROR),
     (mmc_tx_singlecol_g, mmc_tx_singlecol_g, MMC_TXSINGLECOL_G),
     (mmc_tx_multicol_g, mmc_tx_multicol_g, MMC_TXMULTICOL_G),
     (mmc_tx_deferred, mmc_tx_deferred, MMC_TXDEFERRED),
     (mmc_tx_latecol, mmc_tx_latecol, MMC_TXLATECOL),
     (mmc_tx_exesscol, mmc_tx_exesscol, MMC_TXEXESSCOL),
     (mmc_tx_carrier_error, mmc_tx_exesscol, MMC_TXCARRIERERROR),
     (mmc_tx_octetcount_g, mmc_tx_octetcount_g, MMC_TXOCTETCOUNT_G),
     (mmc_tx_framecount_g, mmc_tx_framecount_g, MMC_TXPACKETSCOUNT_G),
     (mmc_tx_excessdef, mmc_tx_excessdef, MMC_TXEXCESSDEF),
     (mmc_tx_pause_frame, mmc_tx_pause_frame, MMC_TXPAUSEPACKETS),
     (mmc_tx_vlan_frame_g, mmc_tx_vlan_frame_g, MMC_TXVLANPACKETS_G),
     (mmc_tx_osize_frame_g, mmc_tx_osize_frame_g, MMC_TXOVERSIZE_G),
     (mmc_rx_framecount_gb, mmc_rx_framecount_gb, MMC_RXPACKETCOUNT_GB),
     (mmc_rx_octetcount_gb, mmc_rx_octetcount_gb, MMC_RXOCTETCOUNT_GB),
     (mmc_rx_octetcount_g, mmc_rx_octetcount_g, MMC_RXOCTETCOUNT_G),
     (mmc_rx_broadcastframe_g, mmc_rx_broadcastframe_g, MMC_RXBROADCASTPACKETS_G),
     (mmc_rx_multicastframe_g, mmc_rx_multicastframe_g, MMC_RXMULTICASTPACKETS_G),
     (mmc_rx_crc_error, mmc_rx_crc_error, MMC_RXCRCERROR),
     (mmc_rx_align_error, mmc_rx_align_error, MMC_RXALIGNMENTERROR),
     (mmc_rx_runt_error, mmc_rx_runt_error, MMC_RXRUNTERROR),
     (mmc_rx_jabber_error, mmc_rx_jabber_error, MMC_RXJABBERERROR),
     (mmc_rx_undersize_g, mmc_rx_undersize_g, MMC_RXUNDERSIZE_G),
     (mmc_rx_oversize_g, mmc_rx_oversize_g, MMC_RXOVERSIZE_G),
     (mmc_rx_64_octets_gb, mmc_rx_64_octets_gb, MMC_RX64OCTETS_GB),
     (mmc_rx_65_to_127_octets_gb, mmc_rx_65_to_127_octets_gb, MMC_RX65TO127OCTETS_GB),
     (mmc_rx_128_to_255_octets_gb, mmc_rx_128_to_255_octets_gb, MMC_RX128TO255OCTETS_GB),
     (mmc_rx_256_to_511_octets_gb, mmc_rx_256_to_511_octets_gb, MMC_RX256TO511OCTETS_GB),
     (mmc_rx_512_to_1023_octets_gb, mmc_rx_512_to_1023_octets_gb, MMC_RX512TO1023OCTETS_GB),
     (mmc_rx_1024_to_max_octets_gb, mmc_rx_1024_to_max_octets_gb, MMC_RX1024TOMAXOCTETS_GB),
     (mmc_rx_unicast_g, mmc_rx_unicast_g, MMC_RXUNICASTPACKETS_G),
     (mmc_rx_length_error, mmc_rx_length_error, MMC_RXLENGTHERROR),
     (mmc_rx_outofrangetype, mmc_rx_outofrangetype, MMC_RXOUTOFRANGETYPE),
     (mmc_rx_pause_frames, mmc_rx_pause_frames, MMC_RXPAUSEPACKETS),
     (mmc_rx_fifo_overflow, mmc_rx_fifo_overflow, MMC_RXFIFOOVERFLOW),
     (mmc_rx_vlan_frames_gb, mmc_rx_vlan_frames_gb, MMC_RXVLANPACKETS_GB),
     (mmc_rx_watchdog_error, mmc_rx_watchdog_error, MMC_RXWATCHDOGERROR),
     (mmc_rx_receive_error, mmc_rx_receive_error, MMC_RXRCVERROR),
     (mmc_rx_ctrl_frames_g, mmc_rx_ctrl_frames_g, MMC_RXCTRLPACKETS_G),
     (mmc_rx_ipv4_gd, mmc_rx_ipv4_gd, MMC_RXIPV4_GD_PKTS),
     (mmc_rx_ipv4_hderr, mmc_rx_ipv4_hderr, MMC_RXIPV4_HDRERR_PKTS),
     (mmc_rx_ipv4_nopay, mmc_rx_ipv4_nopay, MMC_RXIPV4_NOPAY_PKTS),
     (mmc_rx_ipv4_frag, mmc_rx_ipv4_frag, MMC_RXIPV4_FRAG_PKTS),
     (mmc_rx_ipv4_udsbl, mmc_rx_ipv4_udsbl, MMC_RXIPV4_UBSBL_PKTS),
     (mmc_rx_ipv6_gd_octets, mmc_rx_ipv6_gd_octets, MMC_RXIPV6_GD_PKTS),
     (mmc_rx_ipv6_hderr_octets, mmc_rx_ipv6_hderr_octets, MMC_RXIPV6_HDRERR_PKTS),
     (mmc_rx_ipv6_nopay_octets, mmc_rx_ipv6_nopay_octets, MMC_RXIPV6_NOPAY_PKTS),
     (mmc_rx_udp_gd, mmc_rx_udp_gd, MMC_RXUDP_GD_PKTS),
     (mmc_rx_udp_err, mmc_rx_udp_err, MMC_RXUDP_ERR_PKTS),
     (mmc_rx_tcp_gd, mmc_rx_tcp_gd, MMC_RXTCP_GD_PKTS),
     (mmc_rx_tcp_err, mmc_rx_tcp_err, MMC_RXTCP_ERR_PKTS),
     (mmc_rx_icmp_gd, mmc_rx_icmp_gd, MMC_RXICMP_GD_PKTS),
     (mmc_rx_icmp_err, mmc_rx_icmp_err, MMC_RXICMP_ERR_PKTS),
     (mmc_rx_ipv4_gd_octets, mmc_rx_ipv4_gd_octets, MMC_RXIPV4_GD_OCTETS),
     (mmc_rx_ipv4_hderr_octets, mmc_rx_ipv4_hderr_octets, MMC_RXIPV4_HDRERR_OCTETS),
     (mmc_rx_ipv4_nopay_octets, mmc_rx_ipv4_nopay_octets, MMC_RXIPV4_NOPAY_OCTETS),
     (mmc_rx_ipv4_frag_octets, mmc_rx_ipv4_frag_octets, MMC_RXIPV4_FRAG_OCTETS),
     (mmc_rx_ipv4_udsbl_octets, mmc_rx_ipv4_udsbl_octets, MMC_RXIPV4_UDSBL_OCTETS),
     (mmc_rx_udp_gd_octets, mmc_rx_udp_gd_octets, MMC_RXIPV6_GD_OCTETS),
     (mmc_rx_ipv6_hderr, mmc_rx_ipv6_hderr, MMC_RXIPV6_HDRERR_OCTETS),
     (mmc_rx_ipv6_nopay, mmc_rx_ipv6_nopay, MMC_RXIPV6_NOPAY_OCTETS),
     (mmc_rx_udp_gd_octets, mmc_rx_udp_gd_octets, MMC_RXUDP_GD_OCTETS),
     (mmc_rx_udp_err_octets, mmc_rx_udp_err_octets, MMC_RXUDP_ERR_OCTETS),
     (mmc_rx_tcp_gd_octets, mmc_rx_tcp_gd_octets, MMC_RXTCP_GD_OCTETS),
     (mmc_rx_tcp_err_octets, mmc_rx_tcp_err_octets, MMC_RXTCP_ERR_OCTETS),
     (mmc_rx_icmp_gd_octets, mmc_rx_icmp_gd_octets, MMC_RXICMP_GD_OCTETS),
     (mmc_rx_icmp_err_octets, mmc_rx_icmp_err_octets, MMC_RXICMP_ERR_OCTETS)]"

definition mmc_assign ::
    "eqos_mmc_h \<Rightarrow> device \<Rightarrow> nat \<times> nat \<times> nat \<Rightarrow> 'l::len osi_core \<Rightarrow> 'l osi_core" where
  "mmc_assign k dev a c =
     (case a of (dst, src, reg) \<Rightarrow>
        (case update_mmc_val k dev c (fst c src) (MMC_REG k reg) of
           (v, c') \<Rightarrow> ((fst c')(dst := v), snd c')))"

definition eqos_read_mmc :: "eqos_mmc_h \<Rightarrow> device \<Rightarrow> 'l::len osi_core \<Rightarrow> 'l osi_core" where
  "eqos_read_mmc k dev c = fold (mmc_assign k dev) mmc_assignments c"

section \<open>DMA: the safety shadow and slot scheduling (osi/dma/eqos_dma.c)\<close>

text \<open>
  The macros of eqos_dma.h and of the common headers, which are not among the sources,
  are a parameter. A macro with an argument, such as \<^verbatim>\<open>EQOS_DMA_CHX_CTRL(x)\<close>, is a
  function of the channel number. Channel numbers and indices into the shadow arrays
  are natural numbers.
\<close>

record eqos_dma_h =
  EQOS_DMA_CH0_CTRL_IDX :: nat
  EQOS_DMA_CH0_TX_CTRL_IDX :: nat
  EQOS_DMA_CH0_RX_CTRL_IDX :: nat
  EQOS_DMA_CH0_TDRL_IDX :: nat
  EQOS_DMA_CH0_RDRL_IDX :: nat
  EQOS_DMA_CH0_INTR_ENA_IDX :: nat
  EQOS_MAX_DMA_SAFETY_REGS :: nat
  EQOS_DMA_CHX_CTRL :: "nat \<Rightarrow> u32"
  EQOS_DMA_CHX_TX_CTRL :: "nat \<Rightarrow> u32"
  EQOS_DMA_CHX_RX_CTRL :: "nat \<Rightarrow> u32"
  EQOS_DMA_CHX_TDRL :: "nat \<Rightarrow> u32"
  EQOS_DMA_CHX_RDRL :: "nat \<Rightarrow> u32"
  EQOS_DMA_CHX_INTR_ENA :: "nat \<Rightarrow> u32"
  EQOS_DMA_CHX_CTRL_MASK :: u32
  EQOS_DMA_CHX_TX_CTRL_MASK :: u32
  EQOS_DMA_CHX_RX_CTRL_MASK :: u32
  EQOS_DMA_CHX_TDRL_MASK :: u32
  EQOS_DMA_CHX_RDRL_MASK :: u32
  EQOS_DMA_CHX_INTR_ENA_MASK :: u32
  EQOS_DMA_CHX_SLOT_CTRL :: "nat \<Rightarrow> u32"
  EQOS_DMA_CHX_SLOT_SIV_MASK :: u32
  EQOS_DMA_CHX_SLOT_SIV_SHIFT :: nat
  EQOS_DMA_CHX_SLOT_ESC :: u32
  OSI_ENABLE :: u32

text \<open>
  \<open>struct dma_func_safety\<close>: three arrays of \<^verbatim>\<open>EQOS_MAX_DMA_SAFETY_REGS\<close> entries, as
  functions of the index. \<open>reg_addr[i]\<close> is a pointer: \<open>None\<close> is \<^verbatim>\<open>OSI_NULL\<close>, \<open>Some a\<close> the
  register at offset \<open>a\<close> from the DMA base. The lock of the struct shows in the history
  as the events \<open>Lock\<close> and \<open>Unlock\<close>. There is one such struct, the static
  \<open>eqos_dma_safety_config\<close>, which \<open>osi_dma->safety_config\<close> points to.
\<close>

record dma_func_safety =
  reg_addr :: "nat \<Rightarrow> u32 option"
  reg_mask :: "nat \<Rightarrow> u32"
  reg_val :: "nat \<Rightarrow> u32"

text \<open>\<open>eqos_dma_safety_writel\<close>; \<open>osi_writela\<close> is \<open>osi_writel\<close> with a log of the access.\<close>

definition eqos_dma_safety_writel ::
    "dma_func_safety \<Rightarrow> u32 \<Rightarrow> u32 \<Rightarrow> nat \<Rightarrow> event list \<Rightarrow> dma_func_safety \<times> event list" where
  "eqos_dma_safety_writel config val addr idx h =
     (let h1 = Lock # h;
          h2 = osi_writel val addr h1;
          config' = config\<lparr>reg_val := (reg_val config)(idx := val AND reg_mask config idx)\<rparr>
      in (config', Unlock # h2))"

text \<open>The fields of \<open>struct osi_dma_priv_data\<close> that \<open>eqos_dma_safety_init\<close> reads. The
  loop over the channels visits the first \<open>num_dma_chans\<close> entries of \<open>dma_chans\<close>.\<close>

record osi_dma_priv_data =
  num_dma_chans :: nat
  dma_chans :: "nat list"

text \<open>The body of the loop over the channels: six addresses, then six masks.\<close>

definition safety_init_chan :: "eqos_dma_h \<Rightarrow> nat \<Rightarrow> dma_func_safety \<Rightarrow> dma_func_safety" where
  "safety_init_chan k idx config =
     config\<lparr>
       reg_addr := (reg_addr config)
         (EQOS_DMA_CH0_CTRL_IDX k + idx := Some (EQOS_DMA_CHX_CTRL k idx),
          EQOS_DMA_CH0_TX_CTRL_IDX k + idx := Some (EQOS_DMA_CHX_TX_CTRL k idx),
          EQOS_DMA_CH0_RX_CTRL_IDX k + idx := Some (EQOS_DMA_CHX_RX_CTRL k idx),
          EQOS_DMA_CH0_TDRL_IDX k + idx := Some (EQOS_DMA_CHX_TDRL k idx),
          EQOS_DMA_CH0_RDRL_IDX k + idx := Some (EQOS_DMA_CHX_RDRL k idx),
          EQOS_DMA_CH0_INTR_ENA_IDX k + idx := Some (EQOS_DMA_CHX_INTR_ENA k idx)),
       reg_mask := (reg_mask config)
         (EQOS_DMA_CH0_CTRL_IDX k + idx := EQOS_DMA_CHX_CTRL_MASK k,
          EQOS_DMA_CH0_TX_CTRL_IDX k + idx := EQOS_DMA_CHX_TX_CTRL_MASK k,
          EQOS_DMA_CH0_RX_CTRL_IDX k + idx := EQOS_DMA_CHX_RX_CTRL_MASK k,
          EQOS_DMA_CH0_TDRL_IDX k + idx := EQOS_DMA_CHX_TDRL_MASK k,
          EQOS_DMA_CH0_RDRL_IDX k + idx := EQOS_DMA_CHX_RDRL_MASK k,
          EQOS_DMA_CH0_INTR_ENA_IDX k + idx := EQOS_DMA_CHX_INTR_ENA_MASK k)\<rparr>"

text \<open>The last loop of \<open>eqos_dma_safety_init\<close>: the shadow value of every populated slot
  is seeded with the masked content of its register.\<close>

fun safety_init_vals ::
    "device \<Rightarrow> nat list \<Rightarrow> dma_func_safety \<Rightarrow> event list \<Rightarrow> dma_func_safety \<times> event list" where
  "safety_init_vals dev [] config h = (config, h)"
| "safety_init_vals dev (i # is) config h =
     (case reg_addr config i of
        None \<Rightarrow> safety_init_vals dev is config h
      | Some a \<Rightarrow>
          (case osi_readl dev a h of (val, h1) \<Rightarrow>
             safety_init_vals dev is
               (config\<lparr>reg_val := (reg_val config)(i := val AND reg_mask config i)\<rparr>) h1))"

definition eqos_dma_safety_init ::
    "eqos_dma_h \<Rightarrow> device \<Rightarrow> osi_dma_priv_data \<Rightarrow> dma_func_safety \<Rightarrow> event list
      \<Rightarrow> dma_func_safety \<times> event list" where
  "eqos_dma_safety_init k dev osi_dma config h =
     (let regs = [EQOS_DMA_CH0_CTRL_IDX k ..< EQOS_MAX_DMA_SAFETY_REGS k];
          config1 = fold (\<lambda>i c. c\<lparr>reg_addr := (reg_addr c)(i := None)\<rparr>) regs config;
          config2 = fold (safety_init_chan k)
                      (take (num_dma_chans osi_dma) (dma_chans osi_dma)) config1
      in case safety_init_vals dev regs config2 h of
           (config3, h3) \<Rightarrow> (config3, Lock_init # h3))"

text \<open>\<open>eqos_validate_dma_regs\<close>: the loop over the slots, with its early \<open>return -1\<close>, and
  the function around it.\<close>

fun validate_loop :: "device \<Rightarrow> dma_func_safety \<Rightarrow> nat list \<Rightarrow> event list \<Rightarrow> int \<times> event list" where
  "validate_loop dev config [] h = (0, Unlock # h)"
| "validate_loop dev config (i # is) h =
     (case reg_addr config i of
        None \<Rightarrow> validate_loop dev config is h
      | Some a \<Rightarrow>
          (case osi_readl dev a h of (cur_val, h1) \<Rightarrow>
             if cur_val AND reg_mask config i = reg_val config i
             then validate_loop dev config is h1
             else (- 1, Unlock # h1)))"

definition eqos_validate_dma_regs ::
    "eqos_dma_h \<Rightarrow> device \<Rightarrow> dma_func_safety \<Rightarrow> event list \<Rightarrow> int \<times> event list" where
  "eqos_validate_dma_regs k dev config h =
     validate_loop dev config
       [EQOS_DMA_CH0_CTRL_IDX k ..< EQOS_MAX_DMA_SAFETY_REGS k] (Lock # h)"

text \<open>\<open>eqos_config_slot\<close>.\<close>

definition eqos_config_slot ::
    "eqos_dma_h \<Rightarrow> device \<Rightarrow> nat \<Rightarrow> u32 \<Rightarrow> u32 \<Rightarrow> event list \<Rightarrow> event list" where
  "eqos_config_slot k dev chan set' interval h =
     (if set' = OSI_ENABLE k then
        (case osi_readl dev (EQOS_DMA_CHX_SLOT_CTRL k chan) h of (value, h1) \<Rightarrow>
           (let value1 = value AND NOT (EQOS_DMA_CHX_SLOT_SIV_MASK k);
                intr = interval AND EQOS_DMA_CHX_SLOT_SIV_MASK k;
                value2 = value1 OR push_bit (EQOS_DMA_CHX_SLOT_SIV_SHIFT k) intr;
                value3 = value2 OR EQOS_DMA_CHX_SLOT_ESC k
            in osi_writel value3 (EQOS_DMA_CHX_SLOT_CTRL k chan) h1))
      else
        (case osi_readl dev (EQOS_DMA_CHX_SLOT_CTRL k chan) h of (value, h1) \<Rightarrow>
           osi_writel (value AND NOT (EQOS_DMA_CHX_SLOT_ESC k))
             (EQOS_DMA_CHX_SLOT_CTRL k chan) h1))"

section \<open>Observations and sample inputs\<close>

text \<open>The pattern of the three speed select bits in a value of the MII control
  register, as (SS5, SS6, SS13), and the pattern that \<open>xpcs_set_speed\<close> programs: the one in
  the value it writes to the control register.\<close>

definition speed_select :: "xpcs_h \<Rightarrow> u32 \<Rightarrow> bool \<times> bool \<times> bool" where
  "speed_select k ctrl =
     (ctrl AND XPCS_SR_MII_CTRL_SS5 k \<noteq> 0,
      ctrl AND XPCS_SR_MII_CTRL_SS6 k \<noteq> 0,
      ctrl AND XPCS_SR_MII_CTRL_SS13 k \<noteq> 0)"

definition programmed_speed_select ::
    "xpcs_h \<Rightarrow> device \<Rightarrow> u32 \<Rightarrow> event list \<Rightarrow> (bool \<times> bool \<times> bool) option" where
  "programmed_speed_select k dev status h =
     map_option (speed_select k) (last_written (XPCS_SR_MII_CTRL k) (xpcs_set_speed k dev status h))"

text \<open>The history after the first three statements of \<open>xpcs_start\<close>, which enable
  autonegotiation, and the outcome of the poll that follows: \<open>None\<close> when it times out,
  the status (with the completion bit cleared) when autonegotiation completes.\<close>

definition an_enabled :: "xpcs_h \<Rightarrow> device \<Rightarrow> event list \<Rightarrow> event list" where
  "an_enabled k dev h =
     Write (XPCS_SR_MII_CTRL k) (dev h (XPCS_SR_MII_CTRL k) OR XPCS_SR_MII_CTRL_AN_ENABLE k)
       # Read (XPCS_SR_MII_CTRL k) (dev h (XPCS_SR_MII_CTRL k)) # h"

definition an_outcome :: "xpcs_h \<Rightarrow> device \<Rightarrow> event list \<Rightarrow> u32 option" where
  "an_outcome k dev h = fst (an_complete_loop k dev 0 (an_enabled k dev h))"

text \<open>What the code needs of the header: the three speed select masks are not empty and
  share no bit.\<close>

definition speed_select_masks_ok :: "xpcs_h \<Rightarrow> bool" where
  "speed_select_masks_ok k \<longleftrightarrow>
     XPCS_SR_MII_CTRL_SS5 k \<noteq> 0 \<and> XPCS_SR_MII_CTRL_SS6 k \<noteq> 0 \<and> XPCS_SR_MII_CTRL_SS13 k \<noteq> 0 \<and>
     XPCS_SR_MII_CTRL_SS5 k AND XPCS_SR_MII_CTRL_SS6 k = 0 \<and>
     XPCS_SR_MII_CTRL_SS5 k AND XPCS_SR_MII_CTRL_SS13 k = 0 \<and>
     XPCS_SR_MII_CTRL_SS6 k AND XPCS_SR_MII_CTRL_SS13 k = 0"

text \<open>A valuation of the XPCS macros for concrete runs: SS5, SS6 and SS13 are the bits
  5, 6 and 13 that their names give; the AN-complete bit is bit 0 and the speed field
  the bits 10 to 12 of the autonegotiation status.\<close>

definition xpcs_h_sample :: xpcs_h where
  "xpcs_h_sample =
     \<lparr>XPCS_SR_MII_CTRL = 0x7C0000,
      XPCS_SR_MII_CTRL_AN_ENABLE = 0x1000,
      XPCS_SR_MII_CTRL_SS5 = 0x20,
      XPCS_SR_MII_CTRL_SS6 = 0x40,
      XPCS_SR_MII_CTRL_SS13 = 0x2000,
      XPCS_VR_MII_AN_INTR_STS = 0x7E0008,
      XPCS_VR_MII_AN_INTR_STS_CL37_ANCMPLT_INTR = 0x1,
      XPCS_USXG_AN_STS_SPEED_MASK = 0x1C00,
      XPCS_USXG_AN_STS_SPEED_2500 = 0x1000,
      XPCS_USXG_AN_STS_SPEED_5000 = 0x1400,
      XPCS_USXG_AN_STS_SPEED_10000 = 0xC00,
      XPCS_VR_XS_PCS_DIG_CTRL1 = 0xE00000,
      XPCS_VR_XS_PCS_DIG_CTRL1_USRA_RST = 0x400,
      XPCS_SR_XS_PCS_STS1 = 0xC0004,
      XPCS_SR_XS_PCS_STS1_RLU = 0x4\<rparr>"

text \<open>Two devices: one whose registers always read 0 (autonegotiation never completes),
  and one whose registers always read 1 (autonegotiation is complete at the first poll,
  with a speed field of zero).\<close>

definition all_zero_dev :: device where
  "all_zero_dev h a = 0"

definition all_one_dev :: device where
  "all_one_dev h a = 1"

text \<open>A device with a history: every register reads 0 the first two times it is read and 1
  from then on, so autonegotiation completes at the third poll, with a speed field of
  zero.\<close>

definition third_poll_dev :: device where
  "third_poll_dev h a = (if 2 \<le> n_reads a h then 1 else 0)"

text \<open>
  Observations of the safety shadow. \<open>safety_regs k\<close> are the indices that
  \<open>eqos_validate_dma_regs\<close> visits. A slot is populated when its address is not
  \<^verbatim>\<open>OSI_NULL\<close>. The shadow matches a register content \<open>regs\<close> when every populated slot
  holds the masked content of its register.
\<close>

definition safety_regs :: "eqos_dma_h \<Rightarrow> nat list" where
  "safety_regs k = [EQOS_DMA_CH0_CTRL_IDX k ..< EQOS_MAX_DMA_SAFETY_REGS k]"

definition all_unpopulated :: "eqos_dma_h \<Rightarrow> dma_func_safety \<Rightarrow> bool" where
  "all_unpopulated k config \<longleftrightarrow> (\<forall>i \<in> set (safety_regs k). reg_addr config i = None)"

definition slot_matches :: "(u32 \<Rightarrow> u32) \<Rightarrow> dma_func_safety \<Rightarrow> nat \<Rightarrow> bool" where
  "slot_matches regs config i \<longleftrightarrow>
     (case reg_addr config i of
        None \<Rightarrow> True
      | Some a \<Rightarrow> regs a AND reg_mask config i = reg_val config i)"

definition shadow_matches :: "eqos_dma_h \<Rightarrow> (u32 \<Rightarrow> u32) \<Rightarrow> dma_func_safety \<Rightarrow> bool" where
  "shadow_matches k regs config \<longleftrightarrow> (\<forall>i \<in> set (safety_regs k). slot_matches regs config i)"

text \<open>No slot but \<open>idx\<close> monitors the register at \<open>a\<close>.\<close>

definition only_slot_of :: "eqos_dma_h \<Rightarrow> dma_func_safety \<Rightarrow> nat \<Rightarrow> u32 \<Rightarrow> bool" where
  "only_slot_of k config idx a \<longleftrightarrow>
     (\<forall>j \<in> set (safety_regs k). j = idx \<or> reg_addr config j \<noteq> Some a)"

text \<open>No populated slot monitors the register at \<open>a\<close>.\<close>

definition unmonitored :: "eqos_dma_h \<Rightarrow> dma_func_safety \<Rightarrow> u32 \<Rightarrow> bool" where
  "unmonitored k config a \<longleftrightarrow> (\<forall>i \<in> set (safety_regs k). reg_addr config i \<noteq> Some a)"

text \<open>The bits of the slot control register that hold the slot interval: the enable
  branch of \<open>eqos_config_slot\<close> puts \<^verbatim>\<open>interval & EQOS_DMA_CHX_SLOT_SIV_MASK\<close> there, shifted
  left by \<^verbatim>\<open>EQOS_DMA_CHX_SLOT_SIV_SHIFT\<close>.\<close>

definition slot_interval_field :: "eqos_dma_h \<Rightarrow> u32" where
  "slot_interval_field k =
     push_bit (EQOS_DMA_CHX_SLOT_SIV_SHIFT k) (EQOS_DMA_CHX_SLOT_SIV_MASK k)"

text \<open>A valuation of the DMA macros for concrete runs: eight channels, six monitored
  registers for each, the registers of a channel 0x80 apart.\<close>

definition eqos_dma_h_sample :: eqos_dma_h where
  "eqos_dma_h_sample =
     \<lparr>EQOS_DMA_CH0_CTRL_IDX = 0,
      EQOS_DMA_CH0_TX_CTRL_IDX = 8,
      EQOS_DMA_CH0_RX_CTRL_IDX = 16,
      EQOS_DMA_CH0_TDRL_IDX = 24,
      EQOS_DMA_CH0_RDRL_IDX = 32,
      EQOS_DMA_CH0_INTR_ENA_IDX = 40,
      EQOS_MAX_DMA_SAFETY_REGS = 48,
      EQOS_DMA_CHX_CTRL = (\<lambda>x. 0x80 * of_nat x + 0x1100),
      EQOS_DMA_CHX_TX_CTRL = (\<lambda>x. 0x80 * of_nat x + 0x1104),
      EQOS_DMA_CHX_RX_CTRL = (\<lambda>x. 0x80 * of_nat x + 0x1108),
      EQOS_DMA_CHX_TDRL = (\<lambda>x. 0x80 * of_nat x + 0x112C),
      EQOS_DMA_CHX_RDRL = (\<lambda>x. 0x80 * of_nat x + 0x1130),
      EQOS_DMA_CHX_INTR_ENA = (\<lambda>x. 0x80 * of_nat x + 0x1134),
      EQOS_DMA_CHX_CTRL_MASK = 0x11D3FFF,
      EQOS_DMA_CHX_TX_CTRL_MASK = 0xF3F9010,
      EQOS_DMA_CHX_RX_CTRL_MASK = 0x8F3F7FE0,
      EQOS_DMA_CHX_TDRL_MASK = 0x3FF,
      EQOS_DMA_CHX_RDRL_MASK = 0x3FF,
      EQOS_DMA_CHX_INTR_ENA_MASK = 0xFFC7,
      EQOS_DMA_CHX_SLOT_CTRL = (\<lambda>x. 0x80 * of_nat x + 0x113C),
      EQOS_DMA_CHX_SLOT_SIV_MASK = 0xFFF,
      EQOS_DMA_CHX_SLOT_SIV_SHIFT = 4,
      EQOS_DMA_CHX_SLOT_ESC = 0x1,
      OSI_ENABLE = 1\<rparr>"

text \<open>Sample inputs: registers that all hold 0; a shadow struct with nothing in it; the
  shadow of \<open>eqos_dma_safety_init\<close> for no channel and for channel 0 alone.\<close>

definition zero_regs :: "u32 \<Rightarrow> u32" where
  "zero_regs a = 0"

definition blank_safety :: dma_func_safety where
  "blank_safety = \<lparr>reg_addr = (\<lambda>i. None), reg_mask = (\<lambda>i. 0), reg_val = (\<lambda>i. 0)\<rparr>"

definition no_chan :: osi_dma_priv_data where
  "no_chan = \<lparr>num_dma_chans = 0, dma_chans = []\<rparr>"

definition chan0 :: osi_dma_priv_data where
  "chan0 = \<lparr>num_dma_chans = 1, dma_chans = [0]\<rparr>"

definition chan0_safety :: dma_func_safety where
  "chan0_safety =
     fst (eqos_dma_safety_init eqos_dma_h_sample (regfile zero_regs) chan0 blank_safety [])"

text \<open>Registers in which the slot control register of channel 0 holds the interval 0x32
  and the enable bit, and all others 0.\<close>

definition slot_regs :: "u32 \<Rightarrow> u32" where
  "slot_regs a = (if a = 0x113C then 0x321 else 0)"

text \<open>A device whose registers always read 2.\<close>

definition all_two_dev :: device where
  "all_two_dev h a = 2"

text \<open>Counter structs for concrete runs, on a platform with 64-bit \<open>unsigned long\<close>: one
  with the first counter at its maximum, one with every counter 0, and one with 5 excessive collisions and 100
  carrier errors counted so far.\<close>

definition mmc_at_max :: "64 osi_mmc_counters" where
  "mmc_at_max = (\<lambda>f. 0)(mmc_tx_octetcount_gb := 0xFFFFFFFFFFFFFFFF)"

definition mmc_zero :: "64 osi_mmc_counters" where
  "mmc_zero = (\<lambda>f. 0)"

definition mmc_collisions :: "64 osi_mmc_counters" where
  "mmc_collisions = (\<lambda>f. 0)(mmc_tx_exesscol := 5, mmc_tx_carrier_error := 100)"

section \<open>XPCS: the autonegotiation poll\<close>

text \<open>When the AN-complete bit is clear at every read, the loop that starts with \<open>count\<close>
  reads the status register and delays \<open>retry + 1 - count\<close> times, writes nothing, and
  leaves through the timeout.\<close>

lemma an_loop_never_fst:
  assumes "\<And>h. dev h (XPCS_VR_MII_AN_INTR_STS k) AND XPCS_VR_MII_AN_INTR_STS_CL37_ANCMPLT_INTR k = 0"
  shows "fst (an_complete_loop k dev count h) = None"
  using assms
proof (induction k dev count h rule: an_complete_loop.induct)
  case (1 k dev count h)
  show ?case
    using "1.IH" by (subst an_complete_loop.simps) (simp add: xpcs_read_def "1.prems")
qed

lemma an_loop_never_hd:
  assumes "\<And>h. dev h (XPCS_VR_MII_AN_INTR_STS k) AND XPCS_VR_MII_AN_INTR_STS_CL37_ANCMPLT_INTR k = 0"
  shows "hd (snd (an_complete_loop k dev count h)) = Log XPCS_AN_TIMED_OUT"
  using assms
proof (induction k dev count h rule: an_complete_loop.induct)
  case (1 k dev count h)
  show ?case
    using "1.IH" by (subst an_complete_loop.simps) (simp add: xpcs_read_def "1.prems")
qed

lemma an_loop_never_reads:
  assumes "\<And>h. dev h (XPCS_VR_MII_AN_INTR_STS k) AND XPCS_VR_MII_AN_INTR_STS_CL37_ANCMPLT_INTR k = 0"
  shows "n_reads (XPCS_VR_MII_AN_INTR_STS k) (snd (an_complete_loop k dev count h))
           = n_reads (XPCS_VR_MII_AN_INTR_STS k) h + (Suc retry - count)"
  using assms
proof (induction k dev count h rule: an_complete_loop.induct)
  case (1 k dev count h)
  show ?case
    using "1.IH" by (subst an_complete_loop.simps) (simp add: xpcs_read_def "1.prems" Suc_diff_le)
qed

lemma an_loop_never_delays:
  assumes "\<And>h. dev h (XPCS_VR_MII_AN_INTR_STS k) AND XPCS_VR_MII_AN_INTR_STS_CL37_ANCMPLT_INTR k = 0"
  shows "n_delays (snd (an_complete_loop k dev count h)) = n_delays h + (Suc retry - count)"
  using assms
proof (induction k dev count h rule: an_complete_loop.induct)
  case (1 k dev count h)
  show ?case
    using "1.IH" by (subst an_complete_loop.simps) (simp add: xpcs_read_def "1.prems" Suc_diff_le)
qed

lemma an_loop_never_usec:
  assumes "\<And>h. dev h (XPCS_VR_MII_AN_INTR_STS k) AND XPCS_VR_MII_AN_INTR_STS_CL37_ANCMPLT_INTR k = 0"
  shows "delayed_usec (snd (an_complete_loop k dev count h))
           = delayed_usec h + 1000 * (Suc retry - count)"
  using assms
proof (induction k dev count h rule: an_complete_loop.induct)
  case (1 k dev count h)
  show ?case
    using "1.IH" by (subst an_complete_loop.simps) (simp add: xpcs_read_def "1.prems" Suc_diff_le)
qed

text \<open>The loop touches no register but the autonegotiation status register.\<close>

lemma an_loop_reads_other:
  assumes "a \<noteq> XPCS_VR_MII_AN_INTR_STS k"
  shows "n_reads a (snd (an_complete_loop k dev count h)) = n_reads a h"
  using assms
proof (induction k dev count h rule: an_complete_loop.induct)
  case (1 k dev count h)
  show ?case
    using "1.IH" "1.prems"
    by (subst an_complete_loop.simps) (simp add: xpcs_read_def xpcs_write_def Let_def)
qed

lemma an_loop_writes_other:
  assumes "a \<noteq> XPCS_VR_MII_AN_INTR_STS k"
  shows "n_writes a (snd (an_complete_loop k dev count h)) = n_writes a h"
  using assms
proof (induction k dev count h rule: an_complete_loop.induct)
  case (1 k dev count h)
  show ?case
    using "1.IH" "1.prems"
    by (subst an_complete_loop.simps) (simp add: xpcs_read_def xpcs_write_def Let_def)
qed

section \<open>XPCS: \<open>xpcs_start\<close> when autonegotiation fails\<close>

lemma xpcs_start_never_complete:
  assumes never: "\<And>h. dev h (XPCS_VR_MII_AN_INTR_STS k) AND XPCS_VR_MII_AN_INTR_STS_CL37_ANCMPLT_INTR k = 0"
  shows "fst (xpcs_start k dev h) = - 1"
    and "hd (snd (xpcs_start k dev h)) = Log XPCS_AN_TIMED_OUT"
    and "n_delays (snd (xpcs_start k dev h)) = n_delays h + 1001"
    and "delayed_usec (snd (xpcs_start k dev h)) = delayed_usec h + 1001000"
    and "XPCS_VR_MII_AN_INTR_STS k \<noteq> XPCS_SR_MII_CTRL k \<Longrightarrow>
         n_reads (XPCS_VR_MII_AN_INTR_STS k) (snd (xpcs_start k dev h))
           = n_reads (XPCS_VR_MII_AN_INTR_STS k) h + 1001"
proof -
  define h2 where "h2 = Write (XPCS_SR_MII_CTRL k)
      (dev h (XPCS_SR_MII_CTRL k) OR XPCS_SR_MII_CTRL_AN_ENABLE k)
      # Read (XPCS_SR_MII_CTRL k) (dev h (XPCS_SR_MII_CTRL k)) # h"
  obtain hs where loop: "an_complete_loop k dev 0 h2 = (None, hs)"
    using an_loop_never_fst [where dev=dev and k=k and count=0 and h=h2, OF never] by (cases "an_complete_loop k dev 0 h2") auto
  have start: "xpcs_start k dev h = (- 1, hs)"
    using loop by (simp add: xpcs_start_def xpcs_poll_for_an_complete_def xpcs_read_def
        xpcs_write_def h2_def)
  have hs: "hs = snd (an_complete_loop k dev 0 h2)"
    using loop by simp
  show "fst (xpcs_start k dev h) = - 1"
    using start by simp
  show "hd (snd (xpcs_start k dev h)) = Log XPCS_AN_TIMED_OUT"
    using start hs an_loop_never_hd [where dev=dev and k=k and count=0 and h=h2, OF never] by simp
  show "n_delays (snd (xpcs_start k dev h)) = n_delays h + 1001"
    using start hs an_loop_never_delays [where dev=dev and k=k and count=0 and h=h2, OF never] by (simp add: h2_def retry_def)
  show "delayed_usec (snd (xpcs_start k dev h)) = delayed_usec h + 1001000"
    using start hs an_loop_never_usec [where dev=dev and k=k and count=0 and h=h2, OF never] by (simp add: h2_def retry_def)
  show "n_reads (XPCS_VR_MII_AN_INTR_STS k) (snd (xpcs_start k dev h))
           = n_reads (XPCS_VR_MII_AN_INTR_STS k) h + 1001"
    if "XPCS_VR_MII_AN_INTR_STS k \<noteq> XPCS_SR_MII_CTRL k"
    using that start hs an_loop_never_reads [where dev=dev and k=k and count=0 and h=h2, OF never] by (simp add: h2_def retry_def)
qed

lemma xpcs_start_zero_speed:
  assumes "an_outcome k dev h = Some status"
    and "status AND XPCS_USXG_AN_STS_SPEED_MASK k = 0"
  shows "fst (xpcs_start k dev h) = - 1"
    and "snd (xpcs_start k dev h)
           = Log XPCS_AN_ZERO_SPEED # snd (an_complete_loop k dev 0 (an_enabled k dev h))"
proof -
  obtain h1 where loop: "an_complete_loop k dev 0 (an_enabled k dev h) = (Some status, h1)"
    using assms(1) by (cases "an_complete_loop k dev 0 (an_enabled k dev h)") (auto simp: an_outcome_def)
  have start: "xpcs_start k dev h = (- 1, Log XPCS_AN_ZERO_SPEED # h1)"
    using loop assms(2)
    by (simp add: xpcs_start_def xpcs_poll_for_an_complete_def xpcs_read_def xpcs_write_def
        an_enabled_def)
  show "fst (xpcs_start k dev h) = - 1"
    using start by simp
  show "snd (xpcs_start k dev h)
           = Log XPCS_AN_ZERO_SPEED # snd (an_complete_loop k dev 0 (an_enabled k dev h))"
    using start loop by simp
qed

lemma xpcs_start_zero_speed_untouched:
  assumes "an_outcome k dev h = Some status"
    and "status AND XPCS_USXG_AN_STS_SPEED_MASK k = 0"
    and "a \<noteq> XPCS_SR_MII_CTRL k" and "a \<noteq> XPCS_VR_MII_AN_INTR_STS k"
  shows "n_reads a (snd (xpcs_start k dev h)) = n_reads a h"
    and "n_writes a (snd (xpcs_start k dev h)) = n_writes a h"
  using assms(3,4)
  by (simp_all add: xpcs_start_zero_speed(2) [OF assms(1,2)] an_loop_reads_other
      an_loop_writes_other an_enabled_def)

text \<open>A run in which autonegotiation completes at the third poll with a zero speed.\<close>

lemma an_outcome_third_poll: "an_outcome xpcs_h_sample third_poll_dev [] = Some 0"
  by (simp add: an_outcome_def an_enabled_def an_complete_loop.simps xpcs_read_def
      xpcs_write_def xpcs_h_sample_def third_poll_dev_def retry_def)

lemma xpcs_start_third_poll:
  "xpcs_start xpcs_h_sample third_poll_dev [] =
     (- 1,
      [Log XPCS_AN_ZERO_SPEED, Write 0x7E0008 0, Read 0x7E0008 1,
       Udelay 1000, Read 0x7E0008 0, Udelay 1000, Read 0x7E0008 0,
       Write 0x7C0000 0x1000, Read 0x7C0000 0])"
  by (simp add: xpcs_start_def xpcs_poll_for_an_complete_def an_complete_loop.simps
      xpcs_read_def xpcs_write_def xpcs_h_sample_def third_poll_dev_def retry_def)

section \<open>XPCS: the speed select bits\<close>

lemma set_speed_written:
  "xpcs_set_speed k dev status h =
     Write (XPCS_SR_MII_CTRL k)
       (if status AND XPCS_USXG_AN_STS_SPEED_MASK k = XPCS_USXG_AN_STS_SPEED_2500 k then
          (dev h (XPCS_SR_MII_CTRL k) OR XPCS_SR_MII_CTRL_SS5 k)
            AND NOT (XPCS_SR_MII_CTRL_SS6 k OR XPCS_SR_MII_CTRL_SS13 k)
        else if status AND XPCS_USXG_AN_STS_SPEED_MASK k = XPCS_USXG_AN_STS_SPEED_5000 k then
          (dev h (XPCS_SR_MII_CTRL k) OR (XPCS_SR_MII_CTRL_SS5 k OR XPCS_SR_MII_CTRL_SS13 k))
            AND NOT (XPCS_SR_MII_CTRL_SS6 k)
        else
          (dev h (XPCS_SR_MII_CTRL k) OR (XPCS_SR_MII_CTRL_SS6 k OR XPCS_SR_MII_CTRL_SS13 k))
            AND NOT (XPCS_SR_MII_CTRL_SS5 k))
     # Read (XPCS_SR_MII_CTRL k) (dev h (XPCS_SR_MII_CTRL k)) # h"
  by (simp add: xpcs_set_speed_def xpcs_read_def xpcs_write_def Let_def)

lemma disjoint_masks_bit:
  fixes a b :: u32
  assumes "a AND b = 0" and "bit a n"
  shows "\<not> bit b n"
proof
  assume "bit b n"
  with assms(2) have "bit (a AND b) n" by (simp add: bit_and_iff)
  with assms(1) show False by simp
qed

lemma set_bits_kept:
  fixes c a b :: u32
  assumes "a AND b = 0"
  shows "((c OR a) AND NOT b) AND a = a"
  by (rule bit_eqI) (auto simp: bit_and_iff bit_or_iff bit_not_iff dest: disjoint_masks_bit [OF assms])

lemma cleared_bits_gone:
  fixes c b :: u32
  shows "(c AND NOT b) AND b = 0"
  by (rule bit_eqI) (auto simp: bit_and_iff bit_or_iff bit_not_iff)

lemma speed_select_2500:
  assumes "speed_select_masks_ok k"
  shows "speed_select k ((c OR XPCS_SR_MII_CTRL_SS5 k)
            AND NOT (XPCS_SR_MII_CTRL_SS6 k OR XPCS_SR_MII_CTRL_SS13 k)) = (True, False, False)"
proof -
  let ?v = "(c OR XPCS_SR_MII_CTRL_SS5 k) AND NOT (XPCS_SR_MII_CTRL_SS6 k OR XPCS_SR_MII_CTRL_SS13 k)"
  have d: "XPCS_SR_MII_CTRL_SS5 k AND (XPCS_SR_MII_CTRL_SS6 k OR XPCS_SR_MII_CTRL_SS13 k) = 0"
    using assms by (simp add: speed_select_masks_ok_def bit.conj_disj_distrib)
  have "?v AND XPCS_SR_MII_CTRL_SS5 k = XPCS_SR_MII_CTRL_SS5 k"
    by (rule set_bits_kept [OF d])
  moreover have "?v AND XPCS_SR_MII_CTRL_SS6 k = 0"
    by (rule bit_eqI) (auto simp: bit_and_iff bit_or_iff bit_not_iff)
  moreover have "?v AND XPCS_SR_MII_CTRL_SS13 k = 0"
    by (rule bit_eqI) (auto simp: bit_and_iff bit_or_iff bit_not_iff)
  ultimately show ?thesis
    using assms by (simp add: speed_select_def speed_select_masks_ok_def)
qed

lemma speed_select_5000:
  assumes "speed_select_masks_ok k"
  shows "speed_select k ((c OR (XPCS_SR_MII_CTRL_SS5 k OR XPCS_SR_MII_CTRL_SS13 k))
            AND NOT (XPCS_SR_MII_CTRL_SS6 k)) = (True, False, True)"
proof -
  let ?v = "(c OR (XPCS_SR_MII_CTRL_SS5 k OR XPCS_SR_MII_CTRL_SS13 k)) AND NOT (XPCS_SR_MII_CTRL_SS6 k)"
  have d5: "XPCS_SR_MII_CTRL_SS5 k AND XPCS_SR_MII_CTRL_SS6 k = 0"
    and d13: "XPCS_SR_MII_CTRL_SS13 k AND XPCS_SR_MII_CTRL_SS6 k = 0"
    using assms by (simp_all add: speed_select_masks_ok_def and.commute)
  have "?v AND XPCS_SR_MII_CTRL_SS5 k = XPCS_SR_MII_CTRL_SS5 k"
    by (rule bit_eqI)
      (auto simp: bit_and_iff bit_or_iff bit_not_iff dest: disjoint_masks_bit [OF d5])
  moreover have "?v AND XPCS_SR_MII_CTRL_SS13 k = XPCS_SR_MII_CTRL_SS13 k"
    by (rule bit_eqI)
      (auto simp: bit_and_iff bit_or_iff bit_not_iff dest: disjoint_masks_bit [OF d13])
  moreover have "?v AND XPCS_SR_MII_CTRL_SS6 k = 0"
    by (rule bit_eqI) (auto simp: bit_and_iff bit_or_iff bit_not_iff)
  ultimately show ?thesis
    using assms by (simp add: speed_select_def speed_select_masks_ok_def)
qed

lemma speed_select_10000:
  assumes "speed_select_masks_ok k"
  shows "speed_select k ((c OR (XPCS_SR_MII_CTRL_SS6 k OR XPCS_SR_MII_CTRL_SS13 k))
            AND NOT (XPCS_SR_MII_CTRL_SS5 k)) = (False, True, True)"
proof -
  let ?v = "(c OR (XPCS_SR_MII_CTRL_SS6 k OR XPCS_SR_MII_CTRL_SS13 k)) AND NOT (XPCS_SR_MII_CTRL_SS5 k)"
  have d6: "XPCS_SR_MII_CTRL_SS6 k AND XPCS_SR_MII_CTRL_SS5 k = 0"
    and d13: "XPCS_SR_MII_CTRL_SS13 k AND XPCS_SR_MII_CTRL_SS5 k = 0"
    using assms by (simp_all add: speed_select_masks_ok_def and.commute)
  have "?v AND XPCS_SR_MII_CTRL_SS6 k = XPCS_SR_MII_CTRL_SS6 k"
    by (rule bit_eqI)
      (auto simp: bit_and_iff bit_or_iff bit_not_iff dest: disjoint_masks_bit [OF d6])
  moreover have "?v AND XPCS_SR_MII_CTRL_SS13 k = XPCS_SR_MII_CTRL_SS13 k"
    by (rule bit_eqI)
      (auto simp: bit_and_iff bit_or_iff bit_not_iff dest: disjoint_masks_bit [OF d13])
  moreover have "?v AND XPCS_SR_MII_CTRL_SS5 k = 0"
    by (rule bit_eqI) (auto simp: bit_and_iff bit_or_iff bit_not_iff)
  ultimately show ?thesis
    using assms by (simp add: speed_select_def speed_select_masks_ok_def)
qed

lemma programmed_2500:
  assumes "speed_select_masks_ok k"
    and "status AND XPCS_USXG_AN_STS_SPEED_MASK k = XPCS_USXG_AN_STS_SPEED_2500 k"
  shows "programmed_speed_select k dev status h = Some (True, False, False)"
  using assms(2) speed_select_2500 [OF assms(1)]
  by (simp add: programmed_speed_select_def set_speed_written)

lemma programmed_5000:
  assumes "speed_select_masks_ok k"
    and "status AND XPCS_USXG_AN_STS_SPEED_MASK k = XPCS_USXG_AN_STS_SPEED_5000 k"
    and "XPCS_USXG_AN_STS_SPEED_5000 k \<noteq> XPCS_USXG_AN_STS_SPEED_2500 k"
  shows "programmed_speed_select k dev status h = Some (True, False, True)"
  using assms(2,3) speed_select_5000 [OF assms(1)]
  by (simp add: programmed_speed_select_def set_speed_written)

lemma programmed_default:
  assumes "speed_select_masks_ok k"
    and "status AND XPCS_USXG_AN_STS_SPEED_MASK k \<noteq> XPCS_USXG_AN_STS_SPEED_2500 k"
    and "status AND XPCS_USXG_AN_STS_SPEED_MASK k \<noteq> XPCS_USXG_AN_STS_SPEED_5000 k"
  shows "programmed_speed_select k dev status h = Some (False, True, True)"
  using assms(2,3) speed_select_10000 [OF assms(1)]
  by (simp add: programmed_speed_select_def set_speed_written)

section \<open>XPCS: the claims\<close>

text \<open>
  C5 (as amended). In every execution of \<open>xpcs_start\<close> in which each read of the
  autonegotiation interrupt status register has the AN-complete bit clear, \<open>xpcs_start\<close>
  returns -1 with the timeout logged last, after exactly 1001 polls of that register: the
  first one and \<open>retry = 1000\<close> more (the loop gives up when \<open>count > retry\<close>). Each poll is
  followed by one delay of 1000 microseconds, 1001 delays and 1001000 microseconds in
  all. The status register and the MII control register are different registers.
\<close>

theorem an_timeout_after_1001_polls:
  assumes "\<forall>h. dev h (XPCS_VR_MII_AN_INTR_STS k) AND XPCS_VR_MII_AN_INTR_STS_CL37_ANCMPLT_INTR k = 0"
    and "XPCS_VR_MII_AN_INTR_STS k \<noteq> XPCS_SR_MII_CTRL k"
  shows "fst (xpcs_start k dev h) = - 1
       \<and> hd (snd (xpcs_start k dev h)) = Log XPCS_AN_TIMED_OUT
       \<and> n_reads (XPCS_VR_MII_AN_INTR_STS k) (snd (xpcs_start k dev h))
           = n_reads (XPCS_VR_MII_AN_INTR_STS k) h + 1001
       \<and> n_delays (snd (xpcs_start k dev h)) = n_delays h + 1001
       \<and> delayed_usec (snd (xpcs_start k dev h)) = delayed_usec h + 1001 * 1000"
proof -
  have never: "\<And>h. dev h (XPCS_VR_MII_AN_INTR_STS k) AND XPCS_VR_MII_AN_INTR_STS_CL37_ANCMPLT_INTR k = 0"
    using assms(1) by simp
  show ?thesis
    using xpcs_start_never_complete [where dev=dev and k=k and h=h, OF never] assms(2)
    by simp
qed

theorem an_timeout_after_1001_polls_witness:
  "(\<forall>h. all_zero_dev h (XPCS_VR_MII_AN_INTR_STS xpcs_h_sample)
          AND XPCS_VR_MII_AN_INTR_STS_CL37_ANCMPLT_INTR xpcs_h_sample = 0)
   \<and> XPCS_VR_MII_AN_INTR_STS xpcs_h_sample \<noteq> XPCS_SR_MII_CTRL xpcs_h_sample
   \<and> fst (xpcs_start xpcs_h_sample all_zero_dev []) = - 1
   \<and> hd (snd (xpcs_start xpcs_h_sample all_zero_dev [])) = Log XPCS_AN_TIMED_OUT
   \<and> n_reads (XPCS_VR_MII_AN_INTR_STS xpcs_h_sample)
        (snd (xpcs_start xpcs_h_sample all_zero_dev [])) = 1001
   \<and> n_delays (snd (xpcs_start xpcs_h_sample all_zero_dev [])) = 1001
   \<and> delayed_usec (snd (xpcs_start xpcs_h_sample all_zero_dev [])) = 1001000"
proof -
  have a: "\<forall>h. all_zero_dev h (XPCS_VR_MII_AN_INTR_STS xpcs_h_sample)
          AND XPCS_VR_MII_AN_INTR_STS_CL37_ANCMPLT_INTR xpcs_h_sample = 0"
    by (simp add: all_zero_dev_def)
  have b: "XPCS_VR_MII_AN_INTR_STS xpcs_h_sample \<noteq> XPCS_SR_MII_CTRL xpcs_h_sample"
    by (simp add: xpcs_h_sample_def)
  show ?thesis
    using a b
      an_timeout_after_1001_polls [where dev=all_zero_dev and k=xpcs_h_sample and h="[]", OF a b]
    by simp
qed

text \<open>
  C5 as stated fails: on the device whose registers always read 0, started from the empty
  history, the status register is polled 1001 times and the delay runs 1001 times, not
  1000 times.
\<close>

theorem an_timeout_not_after_1000_polls:
  "fst (xpcs_start xpcs_h_sample all_zero_dev []) = - 1
   \<and> n_reads (XPCS_VR_MII_AN_INTR_STS xpcs_h_sample)
        (snd (xpcs_start xpcs_h_sample all_zero_dev [])) \<noteq> 1000
   \<and> n_delays (snd (xpcs_start xpcs_h_sample all_zero_dev [])) \<noteq> 1000"
proof -
  have a: "\<And>h. all_zero_dev h (XPCS_VR_MII_AN_INTR_STS xpcs_h_sample)
          AND XPCS_VR_MII_AN_INTR_STS_CL37_ANCMPLT_INTR xpcs_h_sample = 0"
    by (simp add: all_zero_dev_def)
  have b: "XPCS_VR_MII_AN_INTR_STS xpcs_h_sample \<noteq> XPCS_SR_MII_CTRL xpcs_h_sample"
    by (simp add: xpcs_h_sample_def)
  show ?thesis
    using xpcs_start_never_complete(1,3,5)
      [where dev=all_zero_dev and k=xpcs_h_sample and h="[]", OF a] b
    by simp
qed

text \<open>
  C6. In every execution of \<open>xpcs_start\<close> in which autonegotiation completes and the speed
  field of the status is zero, \<open>xpcs_start\<close> returns -1 with the zero-speed error logged
  last, and the rate adaptor reset is not attempted: the register
  \<^verbatim>\<open>XPCS_VR_XS_PCS_DIG_CTRL1\<close> (a register other than the MII control and the
  autonegotiation status register) is neither written nor read.
\<close>

theorem zero_speed_fails_before_rate_adaptor_reset:
  assumes "an_outcome k dev h = Some status"
    and "status AND XPCS_USXG_AN_STS_SPEED_MASK k = 0"
    and "XPCS_VR_XS_PCS_DIG_CTRL1 k \<noteq> XPCS_SR_MII_CTRL k"
    and "XPCS_VR_XS_PCS_DIG_CTRL1 k \<noteq> XPCS_VR_MII_AN_INTR_STS k"
  shows "fst (xpcs_start k dev h) = - 1
       \<and> hd (snd (xpcs_start k dev h)) = Log XPCS_AN_ZERO_SPEED
       \<and> n_writes (XPCS_VR_XS_PCS_DIG_CTRL1 k) (snd (xpcs_start k dev h))
           = n_writes (XPCS_VR_XS_PCS_DIG_CTRL1 k) h
       \<and> n_reads (XPCS_VR_XS_PCS_DIG_CTRL1 k) (snd (xpcs_start k dev h))
           = n_reads (XPCS_VR_XS_PCS_DIG_CTRL1 k) h"
  using xpcs_start_zero_speed [OF assms(1,2)] xpcs_start_zero_speed_untouched [OF assms]
  by simp

theorem zero_speed_fails_before_rate_adaptor_reset_witness:
  "an_outcome xpcs_h_sample third_poll_dev [] = Some 0
   \<and> (0 :: u32) AND XPCS_USXG_AN_STS_SPEED_MASK xpcs_h_sample = 0
   \<and> XPCS_VR_XS_PCS_DIG_CTRL1 xpcs_h_sample \<noteq> XPCS_SR_MII_CTRL xpcs_h_sample
   \<and> XPCS_VR_XS_PCS_DIG_CTRL1 xpcs_h_sample \<noteq> XPCS_VR_MII_AN_INTR_STS xpcs_h_sample
   \<and> fst (xpcs_start xpcs_h_sample third_poll_dev []) = - 1
   \<and> hd (snd (xpcs_start xpcs_h_sample third_poll_dev [])) = Log XPCS_AN_ZERO_SPEED
   \<and> n_writes (XPCS_VR_XS_PCS_DIG_CTRL1 xpcs_h_sample)
        (snd (xpcs_start xpcs_h_sample third_poll_dev [])) = 0
   \<and> n_reads (XPCS_VR_XS_PCS_DIG_CTRL1 xpcs_h_sample)
        (snd (xpcs_start xpcs_h_sample third_poll_dev [])) = 0"
proof -
  have a: "an_outcome xpcs_h_sample third_poll_dev [] = Some 0"
    by (rule an_outcome_third_poll)
  have b: "(0 :: u32) AND XPCS_USXG_AN_STS_SPEED_MASK xpcs_h_sample = 0"
    by simp
  have c: "XPCS_VR_XS_PCS_DIG_CTRL1 xpcs_h_sample \<noteq> XPCS_SR_MII_CTRL xpcs_h_sample"
    and d: "XPCS_VR_XS_PCS_DIG_CTRL1 xpcs_h_sample \<noteq> XPCS_VR_MII_AN_INTR_STS xpcs_h_sample"
    by (simp_all add: xpcs_h_sample_def)
  show ?thesis
    using a c d zero_speed_fails_before_rate_adaptor_reset [OF a b c d] by simp
qed

text \<open>
  C7. \<open>xpcs_set_speed\<close> programs a different pattern of the speed select bits (SS5, SS6,
  SS13) for each of the three negotiated speeds: SS5 alone for 2.5G, SS5 and SS13 for 5G,
  SS6 and SS13 for 10G, whatever the control register held before. The three speed
  encodings are different constants (they label the cases of one \<open>switch\<close>), and the three
  masks are not empty and share no bit.
\<close>

theorem speed_patterns_distinct:
  assumes "speed_select_masks_ok k"
    and "XPCS_USXG_AN_STS_SPEED_5000 k \<noteq> XPCS_USXG_AN_STS_SPEED_2500 k"
    and "XPCS_USXG_AN_STS_SPEED_10000 k \<noteq> XPCS_USXG_AN_STS_SPEED_2500 k"
    and "XPCS_USXG_AN_STS_SPEED_10000 k \<noteq> XPCS_USXG_AN_STS_SPEED_5000 k"
    and "s1 AND XPCS_USXG_AN_STS_SPEED_MASK k = XPCS_USXG_AN_STS_SPEED_2500 k"
    and "s2 AND XPCS_USXG_AN_STS_SPEED_MASK k = XPCS_USXG_AN_STS_SPEED_5000 k"
    and "s3 AND XPCS_USXG_AN_STS_SPEED_MASK k = XPCS_USXG_AN_STS_SPEED_10000 k"
  shows "programmed_speed_select k dev1 s1 h1 = Some (True, False, False)
       \<and> programmed_speed_select k dev2 s2 h2 = Some (True, False, True)
       \<and> programmed_speed_select k dev3 s3 h3 = Some (False, True, True)
       \<and> programmed_speed_select k dev1 s1 h1 \<noteq> programmed_speed_select k dev2 s2 h2
       \<and> programmed_speed_select k dev1 s1 h1 \<noteq> programmed_speed_select k dev3 s3 h3
       \<and> programmed_speed_select k dev2 s2 h2 \<noteq> programmed_speed_select k dev3 s3 h3"
proof -
  have p1: "programmed_speed_select k dev1 s1 h1 = Some (True, False, False)"
    by (rule programmed_2500 [OF assms(1) assms(5)])
  have p2: "programmed_speed_select k dev2 s2 h2 = Some (True, False, True)"
    by (rule programmed_5000 [OF assms(1) assms(6) assms(2)])
  have p3: "programmed_speed_select k dev3 s3 h3 = Some (False, True, True)"
    using assms(3,4,7) by (intro programmed_default [OF assms(1)]) simp_all
  show ?thesis
    by (simp add: p1 p2 p3)
qed

theorem speed_patterns_distinct_witness:
  "speed_select_masks_ok xpcs_h_sample
   \<and> XPCS_USXG_AN_STS_SPEED_5000 xpcs_h_sample \<noteq> XPCS_USXG_AN_STS_SPEED_2500 xpcs_h_sample
   \<and> XPCS_USXG_AN_STS_SPEED_10000 xpcs_h_sample \<noteq> XPCS_USXG_AN_STS_SPEED_2500 xpcs_h_sample
   \<and> XPCS_USXG_AN_STS_SPEED_10000 xpcs_h_sample \<noteq> XPCS_USXG_AN_STS_SPEED_5000 xpcs_h_sample
   \<and> 0x1000 AND XPCS_USXG_AN_STS_SPEED_MASK xpcs_h_sample = XPCS_USXG_AN_STS_SPEED_2500 xpcs_h_sample
   \<and> 0x1400 AND XPCS_USXG_AN_STS_SPEED_MASK xpcs_h_sample = XPCS_USXG_AN_STS_SPEED_5000 xpcs_h_sample
   \<and> 0xC00 AND XPCS_USXG_AN_STS_SPEED_MASK xpcs_h_sample = XPCS_USXG_AN_STS_SPEED_10000 xpcs_h_sample
   \<and> programmed_speed_select xpcs_h_sample all_zero_dev 0x1000 [] = Some (True, False, False)
   \<and> programmed_speed_select xpcs_h_sample all_one_dev 0x1400 [] = Some (True, False, True)
   \<and> programmed_speed_select xpcs_h_sample all_zero_dev 0xC00 [] = Some (False, True, True)"
proof -
  have a: "speed_select_masks_ok xpcs_h_sample"
    by (simp add: speed_select_masks_ok_def xpcs_h_sample_def)
  have b: "XPCS_USXG_AN_STS_SPEED_5000 xpcs_h_sample \<noteq> XPCS_USXG_AN_STS_SPEED_2500 xpcs_h_sample"
    and c: "XPCS_USXG_AN_STS_SPEED_10000 xpcs_h_sample \<noteq> XPCS_USXG_AN_STS_SPEED_2500 xpcs_h_sample"
    and d: "XPCS_USXG_AN_STS_SPEED_10000 xpcs_h_sample \<noteq> XPCS_USXG_AN_STS_SPEED_5000 xpcs_h_sample"
    by (simp_all add: xpcs_h_sample_def)
  have e: "0x1000 AND XPCS_USXG_AN_STS_SPEED_MASK xpcs_h_sample = XPCS_USXG_AN_STS_SPEED_2500 xpcs_h_sample"
    and f: "0x1400 AND XPCS_USXG_AN_STS_SPEED_MASK xpcs_h_sample = XPCS_USXG_AN_STS_SPEED_5000 xpcs_h_sample"
    and g: "0xC00 AND XPCS_USXG_AN_STS_SPEED_MASK xpcs_h_sample = XPCS_USXG_AN_STS_SPEED_10000 xpcs_h_sample"
    by (simp_all add: xpcs_h_sample_def)
  show ?thesis
    using a b c d e f g
      speed_patterns_distinct [OF a b c d e f g, of all_zero_dev "[]" all_one_dev "[]" all_zero_dev "[]"]
    by simp
qed

text \<open>
  C10. For every autonegotiation status whose masked speed field is neither the 2.5G nor
  the 5G encoding (the 10G encoding, any other non-zero value, and zero as well),
  \<open>xpcs_set_speed\<close> writes the 10G pattern to the control register: the value read, with SS6
  and SS13 set and SS5 cleared. For every status at all it writes the control register
  exactly once, so no speed encoding leaves the speed select bits unwritten.
\<close>

theorem unlisted_speed_programs_10g:
  assumes "speed_select_masks_ok k"
    and "status AND XPCS_USXG_AN_STS_SPEED_MASK k \<noteq> XPCS_USXG_AN_STS_SPEED_2500 k"
    and "status AND XPCS_USXG_AN_STS_SPEED_MASK k \<noteq> XPCS_USXG_AN_STS_SPEED_5000 k"
  shows "programmed_speed_select k dev status h = Some (False, True, True)
       \<and> last_written (XPCS_SR_MII_CTRL k) (xpcs_set_speed k dev status h)
           = Some ((dev h (XPCS_SR_MII_CTRL k)
                     OR (XPCS_SR_MII_CTRL_SS6 k OR XPCS_SR_MII_CTRL_SS13 k))
                    AND NOT (XPCS_SR_MII_CTRL_SS5 k))
       \<and> n_writes (XPCS_SR_MII_CTRL k) (xpcs_set_speed k dev status' h')
           = Suc (n_writes (XPCS_SR_MII_CTRL k) h')"
  using assms(2,3) programmed_default [OF assms]
  by (simp add: set_speed_written)

theorem unlisted_speed_programs_10g_witness:
  "speed_select_masks_ok xpcs_h_sample
   \<and> 0x1800 AND XPCS_USXG_AN_STS_SPEED_MASK xpcs_h_sample \<noteq> 0
   \<and> 0x1800 AND XPCS_USXG_AN_STS_SPEED_MASK xpcs_h_sample \<noteq> XPCS_USXG_AN_STS_SPEED_2500 xpcs_h_sample
   \<and> 0x1800 AND XPCS_USXG_AN_STS_SPEED_MASK xpcs_h_sample \<noteq> XPCS_USXG_AN_STS_SPEED_5000 xpcs_h_sample
   \<and> 0x1800 AND XPCS_USXG_AN_STS_SPEED_MASK xpcs_h_sample \<noteq> XPCS_USXG_AN_STS_SPEED_10000 xpcs_h_sample
   \<and> programmed_speed_select xpcs_h_sample all_one_dev 0x1800 [] = Some (False, True, True)
   \<and> last_written (XPCS_SR_MII_CTRL xpcs_h_sample) (xpcs_set_speed xpcs_h_sample all_one_dev 0x1800 [])
       = Some 0x2041"
proof -
  have a: "speed_select_masks_ok xpcs_h_sample"
    by (simp add: speed_select_masks_ok_def xpcs_h_sample_def)
  have b: "0x1800 AND XPCS_USXG_AN_STS_SPEED_MASK xpcs_h_sample \<noteq> XPCS_USXG_AN_STS_SPEED_2500 xpcs_h_sample"
    and c: "0x1800 AND XPCS_USXG_AN_STS_SPEED_MASK xpcs_h_sample \<noteq> XPCS_USXG_AN_STS_SPEED_5000 xpcs_h_sample"
    and d: "0x1800 AND XPCS_USXG_AN_STS_SPEED_MASK xpcs_h_sample \<noteq> 0"
    and e: "0x1800 AND XPCS_USXG_AN_STS_SPEED_MASK xpcs_h_sample \<noteq> XPCS_USXG_AN_STS_SPEED_10000 xpcs_h_sample"
    by (simp_all add: xpcs_h_sample_def)
  have f: "(all_one_dev [] (XPCS_SR_MII_CTRL xpcs_h_sample)
              OR (XPCS_SR_MII_CTRL_SS6 xpcs_h_sample OR XPCS_SR_MII_CTRL_SS13 xpcs_h_sample))
             AND NOT (XPCS_SR_MII_CTRL_SS5 xpcs_h_sample) = 0x2041"
    by (simp add: xpcs_h_sample_def all_one_dev_def)
  show ?thesis
    using a b c d e
      unlisted_speed_programs_10g [OF a b c, of all_one_dev "[]"]
    by (simp add: f)
qed

section \<open>DMA: validation of the safety shadow\<close>

text \<open>Reads, and the lock, leave a register file as it is; a write changes one register.\<close>

lemma regfile_read: "regfile init (snd (osi_readl dev a h)) = regfile init h"
  by (rule ext) (simp add: osi_readl_def)

lemma regfile_write: "regfile init (osi_writel v a h) = (regfile init h)(a := v)"
  by (rule ext) (simp add: osi_writel_def)

lemma validate_loop_unpopulated:
  "\<forall>i \<in> set is. reg_addr config i = None \<Longrightarrow> validate_loop dev config is h = (0, Unlock # h)"
  by (induction "is") simp_all

lemma validate_loop_result:
  "fst (validate_loop dev config is h) = 0 \<or> fst (validate_loop dev config is h) = - 1"
  by (induction "is" arbitrary: h) (auto split: option.splits prod.splits)

lemma validate_loop_regfile:
  "fst (validate_loop (regfile init) config is h) =
     (if \<forall>i \<in> set is. slot_matches (regfile init h) config i then 0 else - 1)"
proof (induction "is" arbitrary: h)
  case Nil
  then show ?case by simp
next
  case (Cons i "is")
  show ?case
  proof (cases "reg_addr config i")
    case None
    then show ?thesis
      using Cons.IH [of h] by (simp add: slot_matches_def)
  next
    case (Some a)
    have r: "regfile init (Read a (regfile init h a) # h) = regfile init h"
      by (rule ext) simp
    show ?thesis
      using Some Cons.IH [of "Read a (regfile init h a) # h"]
      by (simp add: slot_matches_def osi_readl_def r)
  qed
qed

lemma validate_regfile:
  "fst (eqos_validate_dma_regs k (regfile init) config h) =
     (if shadow_matches k (regfile init h) config then 0 else - 1)"
proof -
  have "regfile init (Lock # h) = regfile init h"
    by (rule ext) simp
  then show ?thesis
    by (simp add: eqos_validate_dma_regs_def validate_loop_regfile shadow_matches_def
        safety_regs_def)
qed

lemma validate_loop_reads_other:
  "\<forall>i \<in> set is. reg_addr config i \<noteq> Some a \<Longrightarrow>
     n_reads a (snd (validate_loop dev config is h)) = n_reads a h"
  by (induction "is" arbitrary: h) (auto split: option.splits simp: osi_readl_def)

lemma validate_loop_writes:
  "n_writes a (snd (validate_loop dev config is h)) = n_writes a h"
  by (induction "is" arbitrary: h) (auto split: option.splits simp: osi_readl_def)

text \<open>\<open>eqos_dma_safety_init\<close> for no channel leaves every slot unpopulated.\<close>

lemma clear_fold_addr:
  "reg_addr (fold (\<lambda>i c. c\<lparr>reg_addr := (reg_addr c)(i := None)\<rparr>) is config) j =
     (if j \<in> set is then None else reg_addr config j)"
  by (induction "is" arbitrary: config) auto

lemma safety_init_vals_addr:
  "reg_addr (fst (safety_init_vals dev is config h)) = reg_addr config"
  by (induction "is" arbitrary: config h) (auto split: option.splits prod.splits)

lemma safety_init_no_chan:
  assumes "num_dma_chans osi_dma = 0"
  shows "all_unpopulated k (fst (eqos_dma_safety_init k dev osi_dma config h))"
  using assms
  by (simp add: all_unpopulated_def eqos_dma_safety_init_def Let_def split_beta
      safety_init_vals_addr clear_fold_addr safety_regs_def)

section \<open>DMA: writes and the shadow\<close>

lemma safety_writel_result:
  "eqos_dma_safety_writel config v a idx h =
     (config\<lparr>reg_val := (reg_val config)(idx := v AND reg_mask config idx)\<rparr>,
      Unlock # Write a v # Lock # h)"
  by (simp add: eqos_dma_safety_writel_def osi_writel_def Let_def)

lemma regfile_after_safety_writel:
  "regfile init (snd (eqos_dma_safety_writel config v a idx h)) = (regfile init h)(a := v)"
  by (rule ext) (simp add: safety_writel_result)

lemma safe_write_keeps_match:
  assumes "idx \<in> set (safety_regs k)"
    and "reg_addr config idx = Some a"
    and "shadow_matches k (regfile init h) config"
    and "only_slot_of k config idx a"
  shows "shadow_matches k (regfile init (snd (eqos_dma_safety_writel config v a idx h)))
           (fst (eqos_dma_safety_writel config v a idx h))"
  unfolding shadow_matches_def
proof
  fix i
  assume i: "i \<in> set (safety_regs k)"
  show "slot_matches (regfile init (snd (eqos_dma_safety_writel config v a idx h)))
          (fst (eqos_dma_safety_writel config v a idx h)) i"
  proof (cases "i = idx")
    case True
    then show ?thesis
      using assms(2) by (simp add: slot_matches_def regfile_after_safety_writel safety_writel_result)
  next
    case False
    have "reg_addr config i \<noteq> Some a"
      using assms(4) i False by (auto simp: only_slot_of_def)
    moreover have "slot_matches (regfile init h) config i"
      using assms(3) i by (simp add: shadow_matches_def)
    ultimately show ?thesis
      using False
      by (auto simp: slot_matches_def regfile_after_safety_writel safety_writel_result
          split: option.splits)
  qed
qed

lemma direct_write_match:
  assumes "idx \<in> set (safety_regs k)"
    and "reg_addr config idx = Some a"
    and "shadow_matches k (regfile init h) config"
    and "only_slot_of k config idx a"
  shows "shadow_matches k (regfile init (osi_writel w a h)) config
           \<longleftrightarrow> w AND reg_mask config idx = reg_val config idx"
proof
  assume "shadow_matches k (regfile init (osi_writel w a h)) config"
  then have "slot_matches (regfile init (osi_writel w a h)) config idx"
    using assms(1) by (simp add: shadow_matches_def)
  then show "w AND reg_mask config idx = reg_val config idx"
    using assms(2) by (simp add: slot_matches_def regfile_write)
next
  assume w: "w AND reg_mask config idx = reg_val config idx"
  show "shadow_matches k (regfile init (osi_writel w a h)) config"
    unfolding shadow_matches_def
  proof
    fix i
    assume i: "i \<in> set (safety_regs k)"
    show "slot_matches (regfile init (osi_writel w a h)) config i"
    proof (cases "i = idx")
      case True
      then show ?thesis
        using assms(2) w by (simp add: slot_matches_def regfile_write)
    next
      case False
      have "reg_addr config i \<noteq> Some a"
        using assms(4) i False by (auto simp: only_slot_of_def)
      moreover have "slot_matches (regfile init h) config i"
        using assms(3) i by (simp add: shadow_matches_def)
      ultimately show ?thesis
        by (auto simp: slot_matches_def regfile_write split: option.splits)
    qed
  qed
qed

lemma direct_write_mismatch:
  assumes "idx \<in> set (safety_regs k)"
    and "reg_addr config idx = Some a"
    and "w AND reg_mask config idx \<noteq> reg_val config idx"
  shows "fst (eqos_validate_dma_regs k (regfile init) config (osi_writel w a h)) = - 1"
proof -
  have "\<not> slot_matches (regfile init (osi_writel w a h)) config idx"
    using assms(2,3) by (simp add: slot_matches_def regfile_write)
  then have "\<not> shadow_matches k (regfile init (osi_writel w a h)) config"
    using assms(1) by (auto simp: shadow_matches_def)
  then show ?thesis
    by (simp add: validate_regfile)
qed

text \<open>On a register file, \<open>eqos_dma_safety_init\<close> leaves a shadow that matches the registers.\<close>

lemma safety_init_vals_mask:
  "reg_mask (fst (safety_init_vals dev is config h)) = reg_mask config"
  by (induction "is" arbitrary: config h) (auto split: option.splits prod.splits)

lemma safety_init_vals_regfile:
  "regfile init (snd (safety_init_vals (regfile init) is config h)) = regfile init h"
proof (induction "is" arbitrary: config h)
  case Nil
  then show ?case by simp
next
  case (Cons i "is")
  show ?case
  proof (cases "reg_addr config i")
    case None
    then show ?thesis using Cons.IH by simp
  next
    case (Some a)
    have "regfile init (Read a (regfile init h a) # h) = regfile init h"
      by (rule ext) simp
    then show ?thesis
      using Some Cons.IH by (simp add: osi_readl_def)
  qed
qed

lemma safety_init_vals_val:
  "reg_val (fst (safety_init_vals (regfile init) is config h)) i =
     (if i \<in> set is then
        (case reg_addr config i of
           None \<Rightarrow> reg_val config i
         | Some a \<Rightarrow> regfile init h a AND reg_mask config i)
      else reg_val config i)"
proof (induction "is" arbitrary: config h)
  case Nil
  then show ?case by simp
next
  case (Cons j "is")
  show ?case
  proof (cases "reg_addr config j")
    case None
    then show ?thesis
      using Cons.IH [of config h] by (auto split: option.splits)
  next
    case (Some a)
    let ?c = "config\<lparr>reg_val := (reg_val config)(j := regfile init h a AND reg_mask config j)\<rparr>"
    let ?h = "Read a (regfile init h a) # h"
    have r: "regfile init ?h = regfile init h"
      by (rule ext) simp
    have "reg_val (fst (safety_init_vals (regfile init) (j # is) config h)) i
            = reg_val (fst (safety_init_vals (regfile init) is ?c ?h)) i"
      using Some by (simp add: osi_readl_def)
    also have "\<dots> = (if i \<in> set is then
        (case reg_addr ?c i of
           None \<Rightarrow> reg_val ?c i
         | Some a \<Rightarrow> regfile init ?h a AND reg_mask ?c i)
      else reg_val ?c i)"
      by (rule Cons.IH)
    finally show ?thesis
      using Some by (auto simp: r split: option.splits)
  qed
qed

lemma init_establishes_match:
  "shadow_matches k
     (regfile init (snd (eqos_dma_safety_init k (regfile init) osi_dma config h)))
     (fst (eqos_dma_safety_init k (regfile init) osi_dma config h))"
proof -
  define regs where "regs = [EQOS_DMA_CH0_CTRL_IDX k ..< EQOS_MAX_DMA_SAFETY_REGS k]"
  define c2 where "c2 = fold (safety_init_chan k)
      (take (num_dma_chans osi_dma) (dma_chans osi_dma))
      (fold (\<lambda>i c. c\<lparr>reg_addr := (reg_addr c)(i := None)\<rparr>) regs config)"
  have res: "eqos_dma_safety_init k (regfile init) osi_dma config h
      = (fst (safety_init_vals (regfile init) regs c2 h),
         Lock_init # snd (safety_init_vals (regfile init) regs c2 h))"
    by (simp add: eqos_dma_safety_init_def Let_def split_beta regs_def c2_def)
  have hist: "regfile init (Lock_init # snd (safety_init_vals (regfile init) regs c2 h))
      = regfile init h"
    using safety_init_vals_regfile [of init regs c2 h] by (intro ext) simp
  show ?thesis
    unfolding res fst_conv snd_conv hist
    by (auto simp: shadow_matches_def slot_matches_def safety_regs_def regs_def [symmetric]
        safety_init_vals_addr safety_init_vals_mask safety_init_vals_val split: option.splits)
qed

text \<open>The sample shadow for channel 0.\<close>

lemma chan0_safety_addr:
  "reg_addr chan0_safety = (\<lambda>i. if i = 0 then Some 0x1100 else if i = 8 then Some 0x1104
     else if i = 16 then Some 0x1108 else if i = 24 then Some 0x112C
     else if i = 32 then Some 0x1130 else if i = 40 then Some 0x1134 else None)"
  by (rule ext) (simp add: chan0_safety_def eqos_dma_safety_init_def Let_def split_beta
       safety_init_vals_addr clear_fold_addr chan0_def safety_init_chan_def blank_safety_def
       eqos_dma_h_sample_def)

lemma chan0_safety_mask0: "reg_mask chan0_safety 0 = 0x11D3FFF"
  by (simp add: chan0_safety_def eqos_dma_safety_init_def Let_def split_beta
       safety_init_vals_mask chan0_def safety_init_chan_def blank_safety_def
       eqos_dma_h_sample_def)

lemma chan0_safety_matches: "shadow_matches eqos_dma_h_sample (regfile zero_regs []) chan0_safety"
proof -
  have "regfile zero_regs (snd (eqos_dma_safety_init eqos_dma_h_sample (regfile zero_regs) chan0 blank_safety []))
      = regfile zero_regs []"
    by (rule ext)
     (simp add: eqos_dma_safety_init_def Let_def split_beta safety_init_vals_regfile)
  then show ?thesis
    using init_establishes_match [of eqos_dma_h_sample zero_regs chan0 blank_safety "[]"]
    by (simp add: chan0_safety_def)
qed

lemma chan0_safety_val0: "reg_val chan0_safety 0 = 0"
proof -
  have "slot_matches (regfile zero_regs []) chan0_safety 0"
    using chan0_safety_matches
    by (simp add: shadow_matches_def safety_regs_def eqos_dma_h_sample_def)
  then show ?thesis
    by (simp add: slot_matches_def chan0_safety_addr zero_regs_def)
qed

lemma chan0_only_slot: "only_slot_of eqos_dma_h_sample chan0_safety 0 0x1100"
  by (simp add: only_slot_of_def chan0_safety_addr)

lemma slot0_in_sample: "0 \<in> set (safety_regs eqos_dma_h_sample)"
  by (simp add: safety_regs_def eqos_dma_h_sample_def)

section \<open>DMA: slot scheduling\<close>

lemma config_slot_disable:
  assumes "set' \<noteq> OSI_ENABLE k"
  shows "eqos_config_slot k dev chan set' interval h =
           Write (EQOS_DMA_CHX_SLOT_CTRL k chan)
             (dev h (EQOS_DMA_CHX_SLOT_CTRL k chan) AND NOT (EQOS_DMA_CHX_SLOT_ESC k))
           # Read (EQOS_DMA_CHX_SLOT_CTRL k chan) (dev h (EQOS_DMA_CHX_SLOT_CTRL k chan)) # h"
  using assms by (simp add: eqos_config_slot_def osi_readl_def osi_writel_def)

lemma clear_outside_field:
  fixes v e f :: u32
  assumes "e AND f = 0"
  shows "(v AND NOT e) AND f = v AND f"
  by (rule bit_eqI) (auto simp: bit_and_iff bit_not_iff dest: disjoint_masks_bit [OF assms])

section \<open>DMA: the claims\<close>

text \<open>
  C4 (as amended). Take a populated slot \<open>idx\<close> of the safety shadow, monitoring the
  register at \<open>a\<close> and no other slot monitoring it, a hardware that changes only by the
  driver's writes, and a shadow that validates. Then a write of any value \<open>v\<close> through
  \<open>eqos_dma_safety_writel\<close> to that slot, followed by \<open>eqos_validate_dma_regs\<close>, returns
  success. A write of \<open>w\<close> directly to the register, bypassing \<open>eqos_dma_safety_writel\<close>,
  makes the next validation fail with -1 exactly when \<open>w\<close> differs from the shadow value
  in a bit of the slot's mask; a direct write that changes masked-out bits only, or none,
  validates.
\<close>

theorem safety_write_validates_direct_write_differs:
  assumes "idx \<in> set (safety_regs k)"
    and "reg_addr config idx = Some a"
    and "only_slot_of k config idx a"
    and "fst (eqos_validate_dma_regs k (regfile init) config h) = 0"
  shows "fst (eqos_validate_dma_regs k (regfile init)
                (fst (eqos_dma_safety_writel config v a idx h))
                (snd (eqos_dma_safety_writel config v a idx h))) = 0
       \<and> fst (eqos_validate_dma_regs k (regfile init) config (osi_writel w a h))
           = (if w AND reg_mask config idx = reg_val config idx then 0 else - 1)"
proof -
  have m: "shadow_matches k (regfile init h) config"
    using assms(4) by (simp add: validate_regfile split: if_splits)
  have "shadow_matches k (regfile init (snd (eqos_dma_safety_writel config v a idx h)))
          (fst (eqos_dma_safety_writel config v a idx h))"
    by (rule safe_write_keeps_match [OF assms(1,2) m assms(3)])
  then show ?thesis
    by (simp add: validate_regfile direct_write_match [OF assms(1,2) m assms(3)])
qed

theorem safety_write_validates_direct_write_differs_witness:
  "0 \<in> set (safety_regs eqos_dma_h_sample)
   \<and> reg_addr chan0_safety 0 = Some 0x1100
   \<and> only_slot_of eqos_dma_h_sample chan0_safety 0 0x1100
   \<and> fst (eqos_validate_dma_regs eqos_dma_h_sample (regfile zero_regs) chan0_safety []) = 0
   \<and> fst (eqos_validate_dma_regs eqos_dma_h_sample (regfile zero_regs)
            (fst (eqos_dma_safety_writel chan0_safety 0x10001 0x1100 0 []))
            (snd (eqos_dma_safety_writel chan0_safety 0x10001 0x1100 0 []))) = 0
   \<and> fst (eqos_validate_dma_regs eqos_dma_h_sample (regfile zero_regs) chan0_safety
            (osi_writel 0x10001 0x1100 [])) = - 1"
proof -
  have a: "0 \<in> set (safety_regs eqos_dma_h_sample)"
    by (rule slot0_in_sample)
  have b: "reg_addr chan0_safety 0 = Some 0x1100"
    by (simp add: chan0_safety_addr)
  have c: "only_slot_of eqos_dma_h_sample chan0_safety 0 0x1100"
    by (rule chan0_only_slot)
  have d: "fst (eqos_validate_dma_regs eqos_dma_h_sample (regfile zero_regs) chan0_safety []) = 0"
    by (simp add: validate_regfile chan0_safety_matches)
  show ?thesis
    using a b c d
      safety_write_validates_direct_write_differs [OF a b c d, of "0x10001" "0x10001"]
    by (simp add: chan0_safety_mask0 chan0_safety_val0)
qed

text \<open>
  C4 as stated fails in its second half: after \<open>eqos_dma_safety_init\<close> for channel 0 on
  registers that hold 0, a direct write of 0x80000000 to the channel control register
  changes a bit outside \<^verbatim>\<open>EQOS_DMA_CHX_CTRL_MASK\<close>, and the next validation returns 0.
\<close>

theorem direct_write_outside_mask_validates:
  "reg_addr chan0_safety 0 = Some 0x1100
   \<and> regfile zero_regs (osi_writel 0x80000000 0x1100 []) 0x1100 \<noteq> regfile zero_regs [] 0x1100
   \<and> fst (eqos_validate_dma_regs eqos_dma_h_sample (regfile zero_regs) chan0_safety
            (osi_writel 0x80000000 0x1100 [])) = 0"
proof -
  have b: "reg_addr chan0_safety 0 = Some 0x1100"
    by (simp add: chan0_safety_addr)
  have "shadow_matches eqos_dma_h_sample (regfile zero_regs (osi_writel 0x80000000 0x1100 []))
          chan0_safety"
    by (simp add: direct_write_match [OF slot0_in_sample b chan0_safety_matches chan0_only_slot]
        chan0_safety_mask0 chan0_safety_val0)
  then show ?thesis
    using b by (simp add: validate_regfile regfile_write zero_regs_def)
qed

text \<open>
  C8. For every channel and every interval argument, \<open>eqos_config_slot\<close> with a \<open>set\<close>
  argument other than \<^verbatim>\<open>OSI_ENABLE\<close> reads the slot control register of the channel and
  writes it back with the ESC bit cleared and nothing else changed. The interval field
  of the written value is the one read (the ESC bit lies outside the field), and on a
  hardware that changes only by the driver's writes no other register changes.
\<close>

theorem config_slot_disable_keeps_interval:
  assumes "set' \<noteq> OSI_ENABLE k"
    and "EQOS_DMA_CHX_SLOT_ESC k AND slot_interval_field k = 0"
  shows "eqos_config_slot k dev chan set' interval h =
           Write (EQOS_DMA_CHX_SLOT_CTRL k chan)
             (dev h (EQOS_DMA_CHX_SLOT_CTRL k chan) AND NOT (EQOS_DMA_CHX_SLOT_ESC k))
           # Read (EQOS_DMA_CHX_SLOT_CTRL k chan) (dev h (EQOS_DMA_CHX_SLOT_CTRL k chan)) # h
       \<and> (dev h (EQOS_DMA_CHX_SLOT_CTRL k chan) AND NOT (EQOS_DMA_CHX_SLOT_ESC k))
            AND slot_interval_field k
           = dev h (EQOS_DMA_CHX_SLOT_CTRL k chan) AND slot_interval_field k
       \<and> (dev h (EQOS_DMA_CHX_SLOT_CTRL k chan) AND NOT (EQOS_DMA_CHX_SLOT_ESC k))
            AND EQOS_DMA_CHX_SLOT_ESC k = 0
       \<and> regfile init (eqos_config_slot k (regfile init) chan set' interval h) a
           = (if a = EQOS_DMA_CHX_SLOT_CTRL k chan
              then regfile init h a AND NOT (EQOS_DMA_CHX_SLOT_ESC k)
              else regfile init h a)
       \<and> regfile init (eqos_config_slot k (regfile init) chan set' interval h)
            (EQOS_DMA_CHX_SLOT_CTRL k chan) AND slot_interval_field k
           = regfile init h (EQOS_DMA_CHX_SLOT_CTRL k chan) AND slot_interval_field k"
  by (simp add: config_slot_disable [OF assms(1)] clear_outside_field [OF assms(2)]
      cleared_bits_gone)

theorem config_slot_disable_keeps_interval_witness:
  "(0 :: u32) \<noteq> OSI_ENABLE eqos_dma_h_sample
   \<and> EQOS_DMA_CHX_SLOT_ESC eqos_dma_h_sample AND slot_interval_field eqos_dma_h_sample = 0
   \<and> eqos_config_slot eqos_dma_h_sample (regfile slot_regs) 0 0 0x7FF [] =
        [Write 0x113C 0x320, Read 0x113C 0x321]
   \<and> regfile slot_regs (eqos_config_slot eqos_dma_h_sample (regfile slot_regs) 0 0 0x7FF []) 0x113C
        = 0x320
   \<and> (0x320 :: u32) AND slot_interval_field eqos_dma_h_sample
        = 0x321 AND slot_interval_field eqos_dma_h_sample"
proof -
  have a: "(0 :: u32) \<noteq> OSI_ENABLE eqos_dma_h_sample"
    by (simp add: eqos_dma_h_sample_def)
  have b: "EQOS_DMA_CHX_SLOT_ESC eqos_dma_h_sample AND slot_interval_field eqos_dma_h_sample = 0"
    by (simp add: eqos_dma_h_sample_def slot_interval_field_def)
  have c: "EQOS_DMA_CHX_SLOT_CTRL eqos_dma_h_sample 0 = 0x113C"
    and d: "EQOS_DMA_CHX_SLOT_ESC eqos_dma_h_sample = 1"
    by (simp_all add: eqos_dma_h_sample_def)
  have e: "slot_interval_field eqos_dma_h_sample = 0xFFF0"
    by (simp add: eqos_dma_h_sample_def slot_interval_field_def)
  show ?thesis
    using a b
      config_slot_disable_keeps_interval [OF a b, of "regfile slot_regs" 0 "0x7FF" "[]" slot_regs "0x113C"]
    by (simp add: c d e slot_regs_def)
qed

text \<open>
  C9. \<open>eqos_validate_dma_regs\<close> over a shadow in which every slot is unpopulated returns
  success, on any hardware, and so it does on the shadow that \<open>eqos_dma_safety_init\<close>
  leaves when no channel is configured. A register that no populated slot monitors is
  not read. On a hardware that changes only by the driver's writes the result is success
  if and only if every populated slot holds the masked content of its register, and it
  is -1 otherwise.
\<close>

theorem validate_skips_unpopulated:
  "(all_unpopulated k config \<longrightarrow>
      eqos_validate_dma_regs k dev config h = (0, Unlock # Lock # h))
   \<and> (num_dma_chans osi_dma = 0 \<longrightarrow>
        fst (eqos_validate_dma_regs k dev
               (fst (eqos_dma_safety_init k dev' osi_dma config' h')) h) = 0)
   \<and> (unmonitored k config a \<longrightarrow>
        n_reads a (snd (eqos_validate_dma_regs k dev config h)) = n_reads a h)
   \<and> (fst (eqos_validate_dma_regs k (regfile init) config h) = 0
        \<longleftrightarrow> shadow_matches k (regfile init h) config)
   \<and> (fst (eqos_validate_dma_regs k (regfile init) config h) \<noteq> 0
        \<longleftrightarrow> fst (eqos_validate_dma_regs k (regfile init) config h) = - 1)"
proof -
  have unpop: "eqos_validate_dma_regs k dev c h = (0, Unlock # Lock # h)"
    if "all_unpopulated k c" for c
    using that
    by (simp add: eqos_validate_dma_regs_def all_unpopulated_def safety_regs_def
        validate_loop_unpopulated)
  have "fst (eqos_validate_dma_regs k dev
               (fst (eqos_dma_safety_init k dev' osi_dma config' h')) h) = 0"
    if "num_dma_chans osi_dma = 0"
    using unpop [OF safety_init_no_chan [OF that]] by simp
  moreover have "n_reads a (snd (eqos_validate_dma_regs k dev config h)) = n_reads a h"
    if "unmonitored k config a"
    using that
    by (simp add: eqos_validate_dma_regs_def safety_regs_def validate_loop_reads_other
        unmonitored_def)
  ultimately show ?thesis
    using unpop [of config] by (simp add: validate_regfile)
qed

theorem validate_skips_unpopulated_witness:
  "all_unpopulated eqos_dma_h_sample blank_safety
   \<and> eqos_validate_dma_regs eqos_dma_h_sample all_one_dev blank_safety [] = (0, [Unlock, Lock])
   \<and> num_dma_chans no_chan = 0
   \<and> fst (eqos_validate_dma_regs eqos_dma_h_sample all_one_dev
            (fst (eqos_dma_safety_init eqos_dma_h_sample all_one_dev no_chan chan0_safety [])) []) = 0
   \<and> unmonitored eqos_dma_h_sample chan0_safety 0x113C
   \<and> n_reads 0x113C (snd (eqos_validate_dma_regs eqos_dma_h_sample all_one_dev chan0_safety [])) = 0
   \<and> shadow_matches eqos_dma_h_sample (regfile zero_regs []) chan0_safety
   \<and> fst (eqos_validate_dma_regs eqos_dma_h_sample (regfile zero_regs) chan0_safety []) = 0"
proof -
  have a: "all_unpopulated eqos_dma_h_sample blank_safety"
    by (simp add: all_unpopulated_def blank_safety_def)
  have b: "num_dma_chans no_chan = 0"
    by (simp add: no_chan_def)
  have c: "unmonitored eqos_dma_h_sample chan0_safety 0x113C"
    by (simp add: unmonitored_def chan0_safety_addr)
  note t = validate_skips_unpopulated
  show ?thesis
    using a b c chan0_safety_matches
      t [of eqos_dma_h_sample blank_safety all_one_dev "[]" no_chan all_one_dev chan0_safety "[]"
           "0x113C" zero_regs]
      t [of eqos_dma_h_sample chan0_safety all_one_dev "[]" no_chan all_one_dev chan0_safety "[]"
           "0x113C" zero_regs]
    by simp
qed

section \<open>MMC: accumulation\<close>

lemmas mmc_field_defs =
  mmc_tx_octetcount_gb_def
  mmc_tx_framecount_gb_def
  mmc_tx_broadcastframe_g_def
  mmc_tx_multicastframe_g_def
  mmc_tx_64_octets_gb_def
  mmc_tx_65_to_127_octets_gb_def
  mmc_tx_128_to_255_octets_gb_def
  mmc_tx_256_to_511_octets_gb_def
  mmc_tx_512_to_1023_octets_gb_def
  mmc_tx_1024_to_max_octets_gb_def
  mmc_tx_unicast_gb_def
  mmc_tx_multicast_gb_def
  mmc_tx_broadcast_gb_def
  mmc_tx_underflow_error_def
  mmc_tx_singlecol_g_def
  mmc_tx_multicol_g_def
  mmc_tx_deferred_def
  mmc_tx_latecol_def
  mmc_tx_exesscol_def
  mmc_tx_carrier_error_def
  mmc_tx_octetcount_g_def
  mmc_tx_framecount_g_def
  mmc_tx_excessdef_def
  mmc_tx_pause_frame_def
  mmc_tx_vlan_frame_g_def
  mmc_tx_osize_frame_g_def
  mmc_rx_framecount_gb_def
  mmc_rx_octetcount_gb_def
  mmc_rx_octetcount_g_def
  mmc_rx_broadcastframe_g_def
  mmc_rx_multicastframe_g_def
  mmc_rx_crc_error_def
  mmc_rx_align_error_def
  mmc_rx_runt_error_def
  mmc_rx_jabber_error_def
  mmc_rx_undersize_g_def
  mmc_rx_oversize_g_def
  mmc_rx_64_octets_gb_def
  mmc_rx_65_to_127_octets_gb_def
  mmc_rx_128_to_255_octets_gb_def
  mmc_rx_256_to_511_octets_gb_def
  mmc_rx_512_to_1023_octets_gb_def
  mmc_rx_1024_to_max_octets_gb_def
  mmc_rx_unicast_g_def
  mmc_rx_length_error_def
  mmc_rx_outofrangetype_def
  mmc_rx_pause_frames_def
  mmc_rx_fifo_overflow_def
  mmc_rx_vlan_frames_gb_def
  mmc_rx_watchdog_error_def
  mmc_rx_receive_error_def
  mmc_rx_ctrl_frames_g_def
  mmc_rx_ipv4_gd_def
  mmc_rx_ipv4_hderr_def
  mmc_rx_ipv4_nopay_def
  mmc_rx_ipv4_frag_def
  mmc_rx_ipv4_udsbl_def
  mmc_rx_ipv6_gd_octets_def
  mmc_rx_ipv6_hderr_octets_def
  mmc_rx_ipv6_nopay_octets_def
  mmc_rx_udp_gd_def
  mmc_rx_udp_err_def
  mmc_rx_tcp_gd_def
  mmc_rx_tcp_err_def
  mmc_rx_icmp_gd_def
  mmc_rx_icmp_err_def
  mmc_rx_ipv4_gd_octets_def
  mmc_rx_ipv4_hderr_octets_def
  mmc_rx_ipv4_nopay_octets_def
  mmc_rx_ipv4_frag_octets_def
  mmc_rx_ipv4_udsbl_octets_def
  mmc_rx_udp_gd_octets_def
  mmc_rx_ipv6_hderr_def
  mmc_rx_ipv6_nopay_def
  mmc_rx_udp_err_octets_def
  mmc_rx_tcp_gd_octets_def
  mmc_rx_tcp_err_octets_def
  mmc_rx_icmp_gd_octets_def
  mmc_rx_icmp_err_octets_def

text \<open>
  With a 64-bit \<open>unsigned long\<close> the sum in \<open>temp\<close> has already wrapped modulo \<open>2 ^ 64\<close> when
  it is compared with \<^verbatim>\<open>ULONG_MAX\<close>, so the comparison is never true: \<open>update_mmc_val\<close>
  returns the wrapped sum and never resets, and \<open>eqos_read_mmc\<close> never writes a register.
\<close>

lemma update_mmc_val_lp64:
  fixes last_value :: "64 word" and c :: "64 osi_core"
  shows "update_mmc_val k dev c last_value offset =
     (last_value + ucast (dev (snd c) offset),
      (fst c, Read offset (dev (snd c) offset) # snd c))"
  by (simp add: update_mmc_val_def osi_readl_def ULONG_MAX_def Let_def)

lemma mmc_assign_lp64:
  fixes c :: "64 osi_core"
  shows "mmc_assign k dev (dst, src, reg) c =
     ((fst c)(dst := fst c src + ucast (dev (snd c) (MMC_REG k reg))),
      Read (MMC_REG k reg) (dev (snd c) (MMC_REG k reg)) # snd c)"
  by (simp add: mmc_assign_def update_mmc_val_lp64)

lemma read_mmc_lp64_no_write:
  fixes c :: "64 osi_core"
  shows "n_writes a (snd (fold (mmc_assign k dev) as c)) = n_writes a (snd c)"
proof (induction as arbitrary: c)
  case Nil
  then show ?case by simp
next
  case (Cons x as)
  obtain dst src reg where x: "x = (dst, src, reg)" by (cases x)
  show ?case
    by (simp add: x Cons.IH mmc_assign_lp64)
qed

text \<open>
  With a 32-bit \<open>unsigned long\<close> the 64-bit sum is exact, and the comparison finds every
  overflow of the counter.
\<close>

lemma unat_u32_bound: "unat (x :: 32 word) < 2 ^ 32"
  using unsigned_less [of x, where 'a=nat] by simp

lemma unat_ucast_u32_u64: "unat (ucast (x :: 32 word) :: 64 word) = unat x"
proof -
  have "unat x < 2 ^ 64"
    using unat_u32_bound [of x] by simp
  then show ?thesis
    by (simp add: unsigned_ucast_eq take_bit_nat_eq_self)
qed

lemma unat_wide_sum:
  "unat ((ucast (a :: 32 word) :: 64 word) + ucast (b :: 32 word)) = unat a + unat b"
proof -
  have "unat a + unat b < 2 ^ 64"
    using unat_u32_bound [of a] unat_u32_bound [of b] by simp
  then show ?thesis
    by (simp add: unat_word_ariths unat_ucast_u32_u64 take_bit_nat_eq_self
        flip: take_bit_eq_mod)
qed

lemma ucast_wide_sum:
  "(ucast ((ucast (a :: 32 word) :: 64 word) + ucast (b :: 32 word)) :: 32 word) = a + b"
proof -
  let ?t = "(ucast a :: 64 word) + ucast b"
  have "unat (ucast ?t :: 32 word) = unat ?t mod 2 ^ 32"
    by (simp only: unsigned_ucast_eq take_bit_eq_mod) simp
  also have "\<dots> = (unat a + unat b) mod 2 ^ 32"
    by (simp only: unat_wide_sum)
  also have "\<dots> = unat (a + b)"
    by (simp add: unat_word_ariths)
  finally show ?thesis
    by (simp add: word_unat_eq_iff)
qed

lemma update_mmc_val_ilp32:
  fixes last_value :: "32 word" and c :: "32 osi_core"
  shows "update_mmc_val k dev c last_value offset =
     (if unat last_value + unat (dev (snd c) offset) < 2 ^ 32
      then (last_value + dev (snd c) offset,
            (fst c, Read offset (dev (snd c) offset) # snd c))
      else (0, eqos_reset_mmc k dev
            (fst c, Log (MMC_VALUE_OVERFLOW offset) # Read offset (dev (snd c) offset) # snd c)))"
proof -
  let ?v = "dev (snd c) offset"
  let ?t = "(ucast last_value :: 64 word) + ucast ?v"
  have m: "unat (ucast (- 1 :: 32 word) :: 64 word) = 2 ^ 32 - 1"
    by (simp add: unat_ucast_u32_u64 unsigned_minus_1_eq_mask mask_eq_exp_minus_1)
  have gt: "?t > ucast (- 1 :: 32 word) \<longleftrightarrow> \<not> unat last_value + unat ?v < 2 ^ 32"
    unfolding word_less_nat_alt unat_wide_sum m by auto
  show ?thesis
    using gt by (simp add: update_mmc_val_def osi_readl_def ULONG_MAX_def Let_def ucast_wide_sum)
qed

section \<open>MMC: the claims\<close>

text \<open>
  C1 does not hold of the code with 64-bit counters. With the stored value at
  \<open>2 ^ 64 - 1\<close> and a hardware register that reads 2, \<open>update_mmc_val\<close> returns the wrapped
  sum 1 for the caller to store, a value below the stored one, after the one register
  read and without any reset or log.
\<close>

theorem update_mmc_val_stores_wrapped_sum:
  "update_mmc_val k all_two_dev (mmc, h) (0xFFFFFFFFFFFFFFFF :: 64 word) offset
     = (1, (mmc, Read offset 2 # h))
   \<and> (1 :: 64 word) < 0xFFFFFFFFFFFFFFFF"
  by (simp add: update_mmc_val_lp64 all_two_dev_def)

text \<open>
  C2 does not hold of the code with 64-bit counters. With the first counter at
  \<open>2 ^ 64 - 1\<close> and hardware registers that read 2, one call of \<open>eqos_read_mmc\<close> leaves the
  first counter at 1 and the second at 2, not at zero, and the counter control register
  is not written at all.
\<close>

theorem read_mmc_overflow_without_reset:
  "fst (eqos_read_mmc k all_two_dev (mmc_at_max, [])) mmc_tx_octetcount_gb = 1
   \<and> fst (eqos_read_mmc k all_two_dev (mmc_at_max, [])) mmc_tx_framecount_gb = 2
   \<and> n_writes (EQOS_MMC_CNTRL k) (snd (eqos_read_mmc k all_two_dev (mmc_at_max, []))) = 0"
proof -
  have "fst (eqos_read_mmc k all_two_dev (mmc_at_max, [])) mmc_tx_octetcount_gb = 1"
    by (simp add: eqos_read_mmc_def mmc_assignments_def mmc_assign_lp64 mmc_at_max_def
        all_two_dev_def mmc_field_defs)
  moreover have "fst (eqos_read_mmc k all_two_dev (mmc_at_max, [])) mmc_tx_framecount_gb = 2"
    by (simp add: eqos_read_mmc_def mmc_assignments_def mmc_assign_lp64 mmc_at_max_def
        all_two_dev_def mmc_field_defs)
  moreover have "n_writes (EQOS_MMC_CNTRL k) (snd (eqos_read_mmc k all_two_dev (mmc_at_max, []))) = 0"
    by (simp add: eqos_read_mmc_def read_mmc_lp64_no_write)
  ultimately show ?thesis
    by simp
qed

text \<open>
  C3 does not hold of the code. \<open>mmc_tx_carrier_error\<close> is computed from the running value
  of \<open>mmc_tx_exesscol\<close>: with 5 excessive collisions and 100 carrier errors counted and all
  hardware registers at 0, \<open>eqos_read_mmc\<close> leaves 5 carrier errors, not 100. And
  \<open>mmc_rx_udp_gd_octets\<close> is assigned twice, from two registers: with all counters 0 and
  every register reading 2 it ends at 4, while \<open>mmc_rx_udp_err_octets\<close>, assigned once from
  its own register, ends at 2.
\<close>

theorem read_mmc_mixes_counters:
  "mmc_collisions mmc_tx_carrier_error = 100
   \<and> fst (eqos_read_mmc k all_zero_dev (mmc_collisions, [])) mmc_tx_carrier_error = 5
   \<and> fst (eqos_read_mmc k all_two_dev (mmc_zero, [])) mmc_rx_udp_gd_octets = 4
   \<and> fst (eqos_read_mmc k all_two_dev (mmc_zero, [])) mmc_rx_udp_err_octets = 2"
proof -
  have "mmc_collisions mmc_tx_carrier_error = 100"
    by (simp add: mmc_collisions_def)
  moreover have "fst (eqos_read_mmc k all_zero_dev (mmc_collisions, [])) mmc_tx_carrier_error = 5"
    by (simp add: eqos_read_mmc_def mmc_assignments_def mmc_assign_lp64 mmc_collisions_def
        all_zero_dev_def mmc_field_defs)
  moreover have "fst (eqos_read_mmc k all_two_dev (mmc_zero, [])) mmc_rx_udp_gd_octets = 4"
    by (simp add: eqos_read_mmc_def mmc_assignments_def mmc_assign_lp64 mmc_zero_def
        all_two_dev_def mmc_field_defs)
  moreover have "fst (eqos_read_mmc k all_two_dev (mmc_zero, [])) mmc_rx_udp_err_octets = 2"
    by (simp add: eqos_read_mmc_def mmc_assignments_def mmc_assign_lp64 mmc_zero_def
        all_two_dev_def mmc_field_defs)
  ultimately show ?thesis
    by simp
qed

end
